theory Spec2Isabelle
  imports Complex_Main "HOL-Library.Sublist"
begin

section \<open>Values of the Python program\<close>

text \<open>
  The scripts validate a product description with pydantic, send a prompt to a chat
  completion endpoint and validate the JSON reply (\<^verbatim>\<open>step4_integration.py\<close>);
  \<^verbatim>\<open>validate_json_step3.py\<close> holds an earlier copy of the input schema.

  A Python \<^verbatim>\<open>str\<close> is a \<^typ>\<open>string\<close>, one \<^typ>\<open>char\<close> per character, so
  \<^const>\<open>length\<close> is Python's \<^verbatim>\<open>len\<close>; the model covers the characters below
  code point 256. A Python \<^verbatim>\<open>float\<close> is the real number it denotes, or one of the
  three special values: the program only compares floats with \<open>0\<close> and \<open>1000000\<close>,
  and both are floats themselves, so the comparisons are exact.
\<close>

datatype pyfloat = Fin real | PosInf | NegInf | NaN

text \<open>Python's \<^verbatim>\<open>v > c\<close> for a float \<open>v\<close> and a finite constant \<open>c\<close>.\<close>

fun float_gt :: "pyfloat \<Rightarrow> real \<Rightarrow> bool" where
  "float_gt (Fin r) c = (c < r)"
| "float_gt PosInf c = True"
| "float_gt NegInf c = False"
| "float_gt NaN c = False"

text \<open>
  What \<^verbatim>\<open>json.load\<close> produces, and what the functions below receive as
  \<^verbatim>\<open>json_data\<close>: a dict is an association list read with \<^const>\<open>map_of\<close>. Its
  keys are strings, as they are in every dict that comes from JSON; a dict with another
  key is not a value of the model (on it \<^verbatim>\<open>**\<close> raises \<^verbatim>\<open>TypeError\<close>).
\<close>

datatype json =
    JNull
  | JBool bool
  | JInt int
  | JFloat pyfloat
  | JStr string
  | JList "json list"
  | JDict "(string \<times> json) list"

text \<open>
  The exceptions that leave a function of the program: \<^verbatim>\<open>TypeError\<close> from
  \<^verbatim>\<open>**\<close> on a value that is not a mapping, what \<^verbatim>\<open>json.loads\<close> raises besides
  \<^verbatim>\<open>JSONDecodeError\<close> (a plain \<^verbatim>\<open>ValueError\<close> for an integer of more digits than
  the interpreter converts, \<^verbatim>\<open>RecursionError\<close> for a reply nested too deep), and
  an exception of the model client that is not an \<^verbatim>\<open>Exception\<close>
  (\<^verbatim>\<open>KeyboardInterrupt\<close>, \<^verbatim>\<open>SystemExit\<close>), here \<^verbatim>\<open>BaseException\<close>.
\<close>

datatype exception = TypeError | ValueError | RecursionError | BaseException

text \<open>The outcome of \<^verbatim>\<open>json.loads\<close> on a string.\<close>

datatype loads_result = Loaded json | JSONDecodeError | LoadsRaised exception

datatype ProductCategory = ELECTRONICS | CLOTHING | HOME_GOODS | BOOKS | OTHER

section \<open>The pydantic models\<close>

fun category_value :: "ProductCategory \<Rightarrow> string" where
  "category_value ELECTRONICS = ''electronics''"
| "category_value CLOTHING = ''clothing''"
| "category_value HOME_GOODS = ''home_goods''"
| "category_value BOOKS = ''books''"
| "category_value OTHER = ''other''"

record Product =
  name :: string
  price :: pyfloat
  category :: ProductCategory
  description :: "string option"
  brand :: "string option"
  in_stock :: bool

record ProductListingRequest =
  product :: Product
  target_audience :: string
  tone :: string
  language :: string

record ChatGPTResponse =
  title :: string
  description :: string
  features :: "string list"
  keywords_text :: string

text \<open>
  A \<^verbatim>\<open>ValidationError\<close> carries one entry per offending field: its path
  (\<^verbatim>\<open>loc\<close>) and the kind of the violation (\<^verbatim>\<open>type\<close>; the text of a
  \<^verbatim>\<open>ValueError\<close> raised by a validator of the program is kept with it).
\<close>

datatype loc_item = Key string | Index nat

datatype error_kind =
    Missing
  | StringType
  | StringTooShort
  | StringTooLong
  | FloatInvalid
  | GreaterThan
  | ValidatorValueError string
  | EnumInvalid
  | BoolInvalid
  | ModelType
  | ListType
  | TooShort
  | TooLong

datatype field_error = FieldError (loc: "loc_item list") (kind: error_kind)

text \<open>
  What the program takes from its libraries is a parameter of the model:
  \<^item> \<open>loads\<close> is \<^verbatim>\<open>json.loads\<close>;
  \<^item> \<open>lax_float\<close> and \<open>lax_bool\<close> are pydantic's conversions of a value that is not
    already a number (a boolean) to a float (a boolean), \<open>None\<close> when it refuses;
  \<^item> \<open>error_msg\<close> is the message (\<^verbatim>\<open>msg\<close>) pydantic gives a field error;
  \<^item> \<open>float_str\<close> and \<open>category_str\<close> are how an f-string renders a float and a
    member of \<^verbatim>\<open>ProductCategory\<close>.
\<close>

record library =
  loads :: "string \<Rightarrow> loads_result"
  lax_float :: "json \<Rightarrow> pyfloat option"
  lax_bool :: "json \<Rightarrow> bool option"
  error_msg :: "field_error \<Rightarrow> string"
  float_str :: "pyfloat \<Rightarrow> string"
  category_str :: "ProductCategory \<Rightarrow> string"

type_synonym 'a validated = "field_error list + 'a"

definition errors_of :: "'a validated \<Rightarrow> field_error list" where
  "errors_of r = (case r of Inl es \<Rightarrow> es | Inr _ \<Rightarrow> [])"

text \<open>A field with no default (\<^verbatim>\<open>Field(...)\<close>), and one with a default.\<close>

definition required ::
  "(string \<times> json) list \<Rightarrow> loc_item list \<Rightarrow> string \<Rightarrow>
   (loc_item list \<Rightarrow> json \<Rightarrow> 'a validated) \<Rightarrow> 'a validated" where
  "required d pre k v =
     (case map_of d k of
        None \<Rightarrow> Inl [FieldError (pre @ [Key k]) Missing]
      | Some j \<Rightarrow> v (pre @ [Key k]) j)"

definition with_default ::
  "(string \<times> json) list \<Rightarrow> loc_item list \<Rightarrow> string \<Rightarrow> 'a \<Rightarrow>
   (loc_item list \<Rightarrow> json \<Rightarrow> 'a validated) \<Rightarrow> 'a validated" where
  "with_default d pre k dflt v =
     (case map_of d k of
        None \<Rightarrow> Inr dflt
      | Some j \<Rightarrow> v (pre @ [Key k]) j)"

text \<open>\<^verbatim>\<open>str\<close> with \<^verbatim>\<open>min_length\<close> and \<^verbatim>\<open>max_length\<close>; only a string is a string.\<close>

definition validate_str ::
  "nat \<Rightarrow> nat option \<Rightarrow> loc_item list \<Rightarrow> json \<Rightarrow> string validated" where
  "validate_str min_length max_length l j =
     (case j of
        JStr s \<Rightarrow>
          if length s < min_length then Inl [FieldError l StringTooShort]
          else if (case max_length of None \<Rightarrow> False | Some m \<Rightarrow> m < length s)
          then Inl [FieldError l StringTooLong]
          else Inr s
      | _ \<Rightarrow> Inl [FieldError l StringType])"

text \<open>\<^verbatim>\<open>Optional[str] = Field(None, max_length=...)\<close>.\<close>

definition validate_optional_str ::
  "nat option \<Rightarrow> loc_item list \<Rightarrow> json \<Rightarrow> string option validated" where
  "validate_optional_str max_length l j =
     (case j of
        JNull \<Rightarrow> Inr None
      | _ \<Rightarrow> map_sum id Some (validate_str 0 max_length l j))"

text \<open>
  The conversion of an \<^verbatim>\<open>int\<close> to a \<^verbatim>\<open>float\<close> overflows from
  \<open>2\<^sup>1\<^sup>0\<^sup>2\<^sup>4 - 2\<^sup>9\<^sup>7\<^sup>0\<close> on, and pydantic then refuses the value. Below that the
  float is the nearest one to the integer, which is the integer itself wherever the
  program accepts it (up to \<open>1000000\<close>); rounding keeps the order with \<open>0\<close> and
  \<open>1000000\<close>, so the model takes the integer for the float.
\<close>

definition float_overflow :: int where
  "float_overflow = 2 ^ 1024 - 2 ^ 970"

definition to_float :: "library \<Rightarrow> json \<Rightarrow> pyfloat option" where
  "to_float lib j =
     (case j of
        JFloat v \<Rightarrow> Some v
      | JInt n \<Rightarrow> if float_overflow \<le> \<bar>n\<bar> then None else Some (Fin (of_int n))
      | _ \<Rightarrow> lax_float lib j)"

definition to_bool :: "library \<Rightarrow> json \<Rightarrow> bool option" where
  "to_bool lib j = (case j of JBool b \<Rightarrow> Some b | _ \<Rightarrow> lax_bool lib j)"

definition validate_bool :: "library \<Rightarrow> loc_item list \<Rightarrow> json \<Rightarrow> bool validated" where
  "validate_bool lib l j =
     (case to_bool lib j of
        None \<Rightarrow> Inl [FieldError l BoolInvalid]
      | Some b \<Rightarrow> Inr b)"

definition validate_category :: "loc_item list \<Rightarrow> json \<Rightarrow> ProductCategory validated" where
  "validate_category l j =
     (case j of
        JStr s \<Rightarrow>
          (case filter (\<lambda>c. category_value c = s)
                  [ELECTRONICS, CLOTHING, HOME_GOODS, BOOKS, OTHER] of
             c # _ \<Rightarrow> Inr c
           | [] \<Rightarrow> Inl [FieldError l EnumInvalid])
      | _ \<Rightarrow> Inl [FieldError l EnumInvalid])"

subsection \<open>\<^verbatim>\<open>Product\<close> of \<^verbatim>\<open>step4_integration.py\<close>\<close>

text \<open>
  The validator \<^verbatim>\<open>price_not_too_high\<close>: \<open>Inl\<close> is the message of the
  \<^verbatim>\<open>ValueError\<close> it raises.
\<close>

definition price_not_too_high :: "pyfloat \<Rightarrow> string + pyfloat" where
  "price_not_too_high v = (if float_gt v 1000000 then Inl ''Price too high'' else Inr v)"

text \<open>
  \<^verbatim>\<open>price: float = Field(..., gt=0)\<close>: the conversion, the bound of the field, then
  the validator of the class.
\<close>

definition validate_price :: "library \<Rightarrow> loc_item list \<Rightarrow> json \<Rightarrow> pyfloat validated" where
  "validate_price lib l j =
     (case to_float lib j of
        None \<Rightarrow> Inl [FieldError l FloatInvalid]
      | Some v \<Rightarrow>
          if \<not> float_gt v 0 then Inl [FieldError l GreaterThan]
          else (case price_not_too_high v of
                  Inl msg \<Rightarrow> Inl [FieldError l (ValidatorValueError msg)]
                | Inr v' \<Rightarrow> Inr v'))"

definition validate_Product ::
  "library \<Rightarrow> loc_item list \<Rightarrow> (string \<times> json) list \<Rightarrow> Product validated" where
  "validate_Product lib pre d =
     (let r_name = required d pre ''name'' (validate_str 1 (Some 100));
          r_price = required d pre ''price'' (validate_price lib);
          r_category = required d pre ''category'' validate_category;
          r_description = with_default d pre ''description'' None (validate_optional_str (Some 500));
          r_brand = with_default d pre ''brand'' None (validate_optional_str (Some 50));
          r_in_stock = with_default d pre ''in_stock'' True (validate_bool lib)
      in case (r_name, r_price, r_category, r_description, r_brand, r_in_stock) of
           (Inr n, Inr p, Inr c, Inr de, Inr b, Inr s) \<Rightarrow>
             Inr \<lparr>name = n, price = p, category = c, description = de, brand = b, in_stock = s\<rparr>
         | _ \<Rightarrow>
             Inl (errors_of r_name @ errors_of r_price @ errors_of r_category @
                  errors_of r_description @ errors_of r_brand @ errors_of r_in_stock))"

text \<open>A nested model takes a dict.\<close>

definition validate_product_field ::
  "library \<Rightarrow> loc_item list \<Rightarrow> json \<Rightarrow> Product validated" where
  "validate_product_field lib l j =
     (case j of
        JDict pd \<Rightarrow> validate_Product lib l pd
      | _ \<Rightarrow> Inl [FieldError l ModelType])"

definition validate_ProductListingRequest ::
  "library \<Rightarrow> (string \<times> json) list \<Rightarrow> ProductListingRequest validated" where
  "validate_ProductListingRequest lib d =
     (let r_product = required d [] ''product'' (validate_product_field lib);
          r_target_audience = with_default d [] ''target_audience'' ''general'' (validate_str 0 None);
          r_tone = with_default d [] ''tone'' ''professional'' (validate_str 0 None);
          r_language = with_default d [] ''language'' ''English'' (validate_str 0 None)
      in case (r_product, r_target_audience, r_tone, r_language) of
           (Inr p, Inr a, Inr t, Inr la) \<Rightarrow>
             Inr \<lparr>product = p, target_audience = a, tone = t, language = la\<rparr>
         | _ \<Rightarrow>
             Inl (errors_of r_product @ errors_of r_target_audience @ errors_of r_tone @
                  errors_of r_language))"

subsection \<open>\<^verbatim>\<open>Product\<close> of \<^verbatim>\<open>validate_json_step3.py\<close>\<close>

text \<open>
  \<^verbatim>\<open>str.isalpha\<close> and the white space \<^verbatim>\<open>str.strip\<close> removes, on the characters
  below code point 256.
\<close>

definition isalpha :: "char \<Rightarrow> bool" where
  "isalpha c =
     (let n = (of_char c :: nat)
      in (65 \<le> n \<and> n \<le> 90) \<or> (97 \<le> n \<and> n \<le> 122) \<or> n = 170 \<or> n = 181 \<or> n = 186 \<or>
         (192 \<le> n \<and> n \<le> 214) \<or> (216 \<le> n \<and> n \<le> 246) \<or> (248 \<le> n \<and> n \<le> 255))"

definition isspace :: "char \<Rightarrow> bool" where
  "isspace c =
     (let n = (of_char c :: nat)
      in (9 \<le> n \<and> n \<le> 13) \<or> (28 \<le> n \<and> n \<le> 32) \<or> n = 133 \<or> n = 160)"

definition strip :: "string \<Rightarrow> string" where
  "strip s = rev (dropWhile isspace (rev (dropWhile isspace s)))"

definition name_must_contain_letters :: "string \<Rightarrow> string + string" where
  "name_must_contain_letters v =
     (if \<not> list_ex isalpha v then Inl ''Name must contain letters'' else Inr (strip v))"

definition price_not_too_high_step3 :: "pyfloat \<Rightarrow> string + pyfloat" where
  "price_not_too_high_step3 v =
     (if float_gt v 1000000 then Inl ''Price seems unrealistically high'' else Inr v)"

definition validate_price_step3 ::
  "library \<Rightarrow> loc_item list \<Rightarrow> json \<Rightarrow> pyfloat validated" where
  "validate_price_step3 lib l j =
     (case to_float lib j of
        None \<Rightarrow> Inl [FieldError l FloatInvalid]
      | Some v \<Rightarrow>
          if \<not> float_gt v 0 then Inl [FieldError l GreaterThan]
          else (case price_not_too_high_step3 v of
                  Inl msg \<Rightarrow> Inl [FieldError l (ValidatorValueError msg)]
                | Inr v' \<Rightarrow> Inr v'))"

text \<open>The bounds of the field are checked on the string as supplied, then the validator runs.\<close>

definition validate_name_step3 :: "loc_item list \<Rightarrow> json \<Rightarrow> string validated" where
  "validate_name_step3 l j =
     (case validate_str 1 (Some 100) l j of
        Inl es \<Rightarrow> Inl es
      | Inr v \<Rightarrow>
          (case name_must_contain_letters v of
             Inl msg \<Rightarrow> Inl [FieldError l (ValidatorValueError msg)]
           | Inr v' \<Rightarrow> Inr v'))"

definition validate_Product_step3 ::
  "library \<Rightarrow> loc_item list \<Rightarrow> (string \<times> json) list \<Rightarrow> Product validated" where
  "validate_Product_step3 lib pre d =
     (let r_name = required d pre ''name'' validate_name_step3;
          r_price = required d pre ''price'' (validate_price_step3 lib);
          r_category = required d pre ''category'' validate_category;
          r_description = with_default d pre ''description'' None (validate_optional_str (Some 500));
          r_brand = with_default d pre ''brand'' None (validate_optional_str (Some 50));
          r_in_stock = with_default d pre ''in_stock'' True (validate_bool lib)
      in case (r_name, r_price, r_category, r_description, r_brand, r_in_stock) of
           (Inr n, Inr p, Inr c, Inr de, Inr b, Inr s) \<Rightarrow>
             Inr \<lparr>name = n, price = p, category = c, description = de, brand = b, in_stock = s\<rparr>
         | _ \<Rightarrow>
             Inl (errors_of r_name @ errors_of r_price @ errors_of r_category @
                  errors_of r_description @ errors_of r_brand @ errors_of r_in_stock))"

definition validate_product_field_step3 ::
  "library \<Rightarrow> loc_item list \<Rightarrow> json \<Rightarrow> Product validated" where
  "validate_product_field_step3 lib l j =
     (case j of
        JDict pd \<Rightarrow> validate_Product_step3 lib l pd
      | _ \<Rightarrow> Inl [FieldError l ModelType])"

definition validate_ProductListingRequest_step3 ::
  "library \<Rightarrow> (string \<times> json) list \<Rightarrow> ProductListingRequest validated" where
  "validate_ProductListingRequest_step3 lib d =
     (let r_product = required d [] ''product'' (validate_product_field_step3 lib);
          r_target_audience = with_default d [] ''target_audience'' ''general'' (validate_str 0 None);
          r_tone = with_default d [] ''tone'' ''professional'' (validate_str 0 None);
          r_language = with_default d [] ''language'' ''English'' (validate_str 0 None)
      in case (r_product, r_target_audience, r_tone, r_language) of
           (Inr p, Inr a, Inr t, Inr la) \<Rightarrow>
             Inr \<lparr>product = p, target_audience = a, tone = t, language = la\<rparr>
         | _ \<Rightarrow>
             Inl (errors_of r_product @ errors_of r_target_audience @ errors_of r_tone @
                  errors_of r_language))"

subsection \<open>\<^verbatim>\<open>ChatGPTResponse\<close>\<close>

text \<open>The items of \<^verbatim>\<open>features: List[str]\<close>, each error under its index.\<close>

fun validate_items :: "loc_item list \<Rightarrow> nat \<Rightarrow> json list \<Rightarrow> string list validated" where
  "validate_items l i [] = Inr []"
| "validate_items l i (x # xs) =
     (case (validate_str 0 None (l @ [Index i]) x, validate_items l (Suc i) xs) of
        (Inr s, Inr ss) \<Rightarrow> Inr (s # ss)
      | (r, rs) \<Rightarrow> Inl (errors_of r @ errors_of rs))"

definition validate_features :: "loc_item list \<Rightarrow> json \<Rightarrow> string list validated" where
  "validate_features l j =
     (case j of
        JList xs \<Rightarrow>
          if 10 < length xs then Inl [FieldError l TooLong]
          else (case validate_items l 0 xs of
                  Inl es \<Rightarrow> Inl es
                | Inr ss \<Rightarrow> if length ss < 3 then Inl [FieldError l TooShort] else Inr ss)
      | _ \<Rightarrow> Inl [FieldError l ListType])"

definition validate_ChatGPTResponse ::
  "(string \<times> json) list \<Rightarrow> ChatGPTResponse validated" where
  "validate_ChatGPTResponse d =
     (let r_title = required d [] ''title'' (validate_str 10 (Some 100));
          r_description = required d [] ''description'' (validate_str 100 (Some 1000));
          r_features = required d [] ''features'' validate_features;
          r_keywords = required d [] ''keywords'' (validate_str 10 None)
      in case (r_title, r_description, r_features, r_keywords) of
           (Inr t, Inr de, Inr f, Inr k) \<Rightarrow>
             Inr \<lparr>title = t, description = de, features = f, keywords_text = k\<rparr>
         | _ \<Rightarrow>
             Inl (errors_of r_title @ errors_of r_description @ errors_of r_features @
                  errors_of r_keywords))"

subsection \<open>\<^verbatim>\<open>.dict()\<close>\<close>

text \<open>
  A member of \<^verbatim>\<open>ProductCategory(str, Enum)\<close> is a string equal to its value, and an
  absent optional field is \<^verbatim>\<open>None\<close>.
\<close>

definition optional_json :: "string option \<Rightarrow> json" where
  "optional_json v = (case v of None \<Rightarrow> JNull | Some s \<Rightarrow> JStr s)"

definition dict_Product :: "Product \<Rightarrow> (string \<times> json) list" where
  "dict_Product p =
     [(''name'', JStr (name p)),
      (''price'', JFloat (price p)),
      (''category'', JStr (category_value (category p))),
      (''description'', optional_json (Product.description p)),
      (''brand'', optional_json (brand p)),
      (''in_stock'', JBool (in_stock p))]"

definition dict_ProductListingRequest :: "ProductListingRequest \<Rightarrow> (string \<times> json) list" where
  "dict_ProductListingRequest r =
     [(''product'', JDict (dict_Product (product r))),
      (''target_audience'', JStr (target_audience r)),
      (''tone'', JStr (tone r)),
      (''language'', JStr (language r))]"

definition dict_ChatGPTResponse :: "ChatGPTResponse \<Rightarrow> (string \<times> json) list" where
  "dict_ChatGPTResponse r =
     [(''title'', JStr (title r)),
      (''description'', JStr (ChatGPTResponse.description r)),
      (''features'', JList (map JStr (features r))),
      (''keywords'', JStr (keywords_text r))]"

section \<open>The pipeline of \<^verbatim>\<open>step4_integration.py\<close>\<close>

text \<open>
  What the functions print is a list of events, one per message that tells a stage or its
  outcome apart; the lines that \<^verbatim>\<open>validate_input\<close> and
  \<^verbatim>\<open>validate_chatgpt_response\<close> print for the field errors, each the path and the
  message of one error, are the payload of one event. Printing itself does not fail.
\<close>

datatype event =
    ValidatingInput
  | InputValidationPassed
  | InputValidationFailed "(loc_item list \<times> string) list"
  | CallingChatGPT
  | ChatGPTResponseReceived
  | ChatGPTApiError
  | ValidatingResponse
  | ResponseValidationPassed
  | ResponseNotValidJson
  | ResponseValidationFailed "(loc_item list \<times> string) list"

text \<open>
  The loop \<^verbatim>\<open>for error in e.errors()\<close> of both validating functions prints
  \<^verbatim>\<open>error['loc']\<close> and \<^verbatim>\<open>error['msg']\<close>.
\<close>

definition printed_errors ::
  "library \<Rightarrow> field_error list \<Rightarrow> (loc_item list \<times> string) list" where
  "printed_errors lib es = map (\<lambda>e. (loc e, error_msg lib e)) es"

text \<open>
  \<^verbatim>\<open>validate_input\<close>: \<^verbatim>\<open>ProductListingRequest(**json_data)\<close> raises
  \<^verbatim>\<open>TypeError\<close> when \<^verbatim>\<open>json_data\<close> is not a mapping, and only
  \<^verbatim>\<open>ValidationError\<close> is caught.
\<close>

definition validate_input ::
  "library \<Rightarrow> json \<Rightarrow> event list \<times> (exception + ProductListingRequest option)" where
  "validate_input lib json_data =
     (case json_data of
        JDict d \<Rightarrow>
          (case validate_ProductListingRequest lib d of
             Inr validated \<Rightarrow> ([ValidatingInput, InputValidationPassed], Inr (Some validated))
           | Inl es \<Rightarrow>
               ([ValidatingInput, InputValidationFailed (printed_errors lib es)], Inr None))
      | _ \<Rightarrow> ([ValidatingInput], Inl TypeError))"

text \<open>\<^verbatim>\<open>x if x else dflt\<close> for an optional string: \<^verbatim>\<open>None\<close> and \<^verbatim>\<open>''\<close> are false.\<close>

definition str_or :: "string option \<Rightarrow> string \<Rightarrow> string" where
  "str_or x dflt = (case x of None \<Rightarrow> dflt | Some s \<Rightarrow> if s = [] then dflt else s)"

definition nl :: string where
  "nl = [CHR 0x0A]"

text \<open>The f-string \<^verbatim>\<open>prompt\<close> of \<^verbatim>\<open>call_chatgpt\<close>.\<close>

definition prompt :: "library \<Rightarrow> ProductListingRequest \<Rightarrow> string" where
  \<open>prompt lib product_request =
     (let p = product product_request
      in concat
        [''Create a product listing for marketing purposes.'', nl,
         nl,
         ''PRODUCT DETAILS:'', nl,
         ''- Name: '', name p, nl,
         ''- Price: $'', float_str lib (price p), nl,
         ''- Category: '', category_str lib (category p), nl,
         ''- Brand: '', str_or (brand p) ''Not specified'', nl,
         ''- Description: '', str_or (Product.description p) ''No description provided'', nl,
         ''- In Stock: '', (if in_stock p then ''Yes'' else ''No''), nl,
         nl,
         ''TARGET AUDIENCE: '', target_audience product_request, nl,
         ''TONE: '', tone product_request, nl,
         ''LANGUAGE: '', language product_request, nl,
         nl,
         ''IMPORTANT: Respond with ONLY valid JSON in this exact format:'', nl,
         ''{'', nl,
         ''    "title": "Product title here (catchy, 60 characters max)",'', nl,
         ''    "description": "Detailed product description (100-300 words)",'', nl,
         ''    "features": ["Feature 1", "Feature 2", "Feature 3", "Feature 4", "Feature 5"],'', nl,
         ''    "keywords": "comma, separated, keywords, for, seo"'', nl,
         ''}''])\<close>

text \<open>\<^verbatim>\<open>content.startswith(p)\<close> and the slice \<^verbatim>\<open>content[a:-b]\<close> (for \<open>b > 0\<close>).\<close>

definition startswith :: "string \<Rightarrow> string \<Rightarrow> bool" where
  "startswith s p = (take (length p) s = p)"

definition slice :: "nat \<Rightarrow> nat \<Rightarrow> string \<Rightarrow> string" where
  "slice a b s = drop a (take (length s - b) s)"

text \<open>The cleaning of the reply in \<^verbatim>\<open>call_chatgpt\<close> (the specification's sanitizer).\<close>

definition clean_response :: "string \<Rightarrow> string" where
  "clean_response content =
     (if startswith content ''```json'' then slice 7 3 content
      else if startswith content ''```'' then slice 3 3 content
      else content)"

text \<open>
  What \<^verbatim>\<open>client.chat.completions.create\<close> does with the prompt: it raises an
  \<^verbatim>\<open>Exception\<close> (or the reply has no first choice), it raises an exception that is
  not an \<^verbatim>\<open>Exception\<close>, or \<^verbatim>\<open>response.choices[0].message.content\<close> is
  \<^verbatim>\<open>None\<close> or a string.
\<close>

datatype api_result = ApiException | ApiBaseException | ApiContent "string option"

text \<open>
  \<^verbatim>\<open>call_chatgpt\<close>: everything after the prompt is inside
  \<^verbatim>\<open>try ... except Exception\<close>, also \<^verbatim>\<open>content.startswith\<close> on \<^verbatim>\<open>None\<close>;
  an exception that is not an \<^verbatim>\<open>Exception\<close> is not caught.
\<close>

definition call_chatgpt ::
  "library \<Rightarrow> (string \<Rightarrow> api_result) \<Rightarrow> ProductListingRequest \<Rightarrow>
   event list \<times> (exception + string option)" where
  "call_chatgpt lib client product_request =
     (case client (prompt lib product_request) of
        ApiException \<Rightarrow> ([CallingChatGPT, ChatGPTApiError], Inr None)
      | ApiBaseException \<Rightarrow> ([CallingChatGPT], Inl BaseException)
      | ApiContent None \<Rightarrow> ([CallingChatGPT, ChatGPTApiError], Inr None)
      | ApiContent (Some content) \<Rightarrow>
          ([CallingChatGPT, ChatGPTResponseReceived], Inr (Some (clean_response content))))"

text \<open>
  \<^verbatim>\<open>validate_chatgpt_response\<close>: \<^verbatim>\<open>JSONDecodeError\<close> and
  \<^verbatim>\<open>ValidationError\<close> are caught and nothing else, so another exception of
  \<^verbatim>\<open>json.loads\<close> leaves the function, and so does the \<^verbatim>\<open>TypeError\<close> that
  \<^verbatim>\<open>ChatGPTResponse(**response_data)\<close> raises when the parsed reply is not a mapping.
\<close>

definition validate_chatgpt_response ::
  "library \<Rightarrow> string \<Rightarrow> event list \<times> (exception + ChatGPTResponse option)" where
  "validate_chatgpt_response lib response_text =
     (case loads lib response_text of
        JSONDecodeError \<Rightarrow> ([ValidatingResponse, ResponseNotValidJson], Inr None)
      | LoadsRaised e \<Rightarrow> ([ValidatingResponse], Inl e)
      | Loaded (JDict response_data) \<Rightarrow>
          (case validate_ChatGPTResponse response_data of
             Inr validated_response \<Rightarrow>
               ([ValidatingResponse, ResponseValidationPassed], Inr (Some validated_response))
           | Inl es \<Rightarrow>
               ([ValidatingResponse, ResponseValidationFailed (printed_errors lib es)], Inr None))
      | Loaded _ \<Rightarrow> ([ValidatingResponse], Inl TypeError))"

text \<open>
  The check mark that opens the message of a successful run is written as its three
  UTF-8 bytes.
\<close>

definition success_message :: string where
  "success_message =
     [CHR 0xE2, CHR 0x9C, CHR 0x85] @
     '' Complete pipeline successful with validation at every step!''"

text \<open>\<^verbatim>\<open>process_product_request\<close>; the result is the dict it returns.\<close>

definition process_product_request ::
  "library \<Rightarrow> (string \<Rightarrow> api_result) \<Rightarrow> json \<Rightarrow>
   event list \<times> (exception + (string \<times> json) list)" where
  "process_product_request lib client json_data =
     (case validate_input lib json_data of
        (log1, Inl e) \<Rightarrow> (log1, Inl e)
      | (log1, Inr None) \<Rightarrow>
          (log1, Inr [(''status'', JStr ''input_validation_failed''),
                      (''error'', JStr ''Input data invalid'')])
      | (log1, Inr (Some validated_input)) \<Rightarrow>
          (case call_chatgpt lib client validated_input of
             (log2, Inl e) \<Rightarrow> (log1 @ log2, Inl e)
           | (log2, Inr None) \<Rightarrow>
               (log1 @ log2, Inr [(''status'', JStr ''chatgpt_failed''),
                                  (''error'', JStr ''ChatGPT API call failed'')])
           | (log2, Inr (Some chatgpt_response)) \<Rightarrow>
               if chatgpt_response = []
               then (log1 @ log2, Inr [(''status'', JStr ''chatgpt_failed''),
                                       (''error'', JStr ''ChatGPT API call failed'')])
               else
                 (case validate_chatgpt_response lib chatgpt_response of
                    (log3, Inl e) \<Rightarrow> (log1 @ log2 @ log3, Inl e)
                  | (log3, Inr None) \<Rightarrow>
                      (log1 @ log2 @ log3,
                       Inr [(''status'', JStr ''output_validation_failed''),
                            (''error'', JStr ''ChatGPT response invalid''),
                            (''raw_response'', JStr chatgpt_response)])
                  | (log3, Inr (Some validated_output)) \<Rightarrow>
                      (log1 @ log2 @ log3,
                       Inr [(''status'', JStr ''success''),
                            (''input'', JDict (dict_ProductListingRequest validated_input)),
                            (''output'', JDict (dict_ChatGPTResponse validated_output)),
                            (''message'', JStr success_message)]))))"

text \<open>
  The first message of \<^verbatim>\<open>validate_input\<close>, \<^verbatim>\<open>call_chatgpt\<close> and
  \<^verbatim>\<open>validate_chatgpt_response\<close>: the stages that were entered, in order.
\<close>

definition stages :: "event list \<Rightarrow> event list" where
  "stages events =
     filter (\<lambda>e. e = ValidatingInput \<or> e = CallingChatGPT \<or> e = ValidatingResponse) events"

section \<open>Sample data\<close>

text \<open>
  The request of \<^verbatim>\<open>test_integration\<close>, a reply that fits \<^verbatim>\<open>ChatGPTResponse\<close>, and
  a library to run the functions on them. \<open>sample_loads\<close> is \<^verbatim>\<open>json.loads\<close> on the
  texts used below: the reply, \<^verbatim>\<open>42\<close>, \<^verbatim>\<open>{}\<close>, \<^verbatim>\<open>[]\<close>, \<^verbatim>\<open>not json at all\<close>, and an
  integer of 4301 digits, one more than Python 3.11 converts; on other texts it stands
  for no parser. The lax conversions refuse (the samples give a number where a number
  is due and a boolean where a boolean is due); the messages are pydantic's for a missing
  field, a price not above 0 and a \<^verbatim>\<open>ValueError\<close> of a validator; the prices
  \<^verbatim>\<open>89.99\<close> and \<^verbatim>\<open>5.0\<close> are rendered as Python does, and a category as its value, as
  Python up to 3.10 renders it.
\<close>

definition test_product :: "(string \<times> json) list" where
  "test_product =
     [(''name'', JStr ''Premium Coffee Maker''),
      (''price'', JFloat (Fin 89.99)),
      (''category'', JStr ''home_goods''),
      (''description'', JStr ''Programmable coffee maker with thermal carafe''),
      (''brand'', JStr ''BrewMaster''),
      (''in_stock'', JBool True)]"

definition test_dict :: "(string \<times> json) list" where
  "test_dict =
     [(''product'', JDict test_product),
      (''target_audience'', JStr ''home baristas''),
      (''tone'', JStr ''warm and inviting''),
      (''language'', JStr ''English'')]"

definition test_data :: json where
  "test_data = JDict test_dict"

definition test_request :: ProductListingRequest where
  "test_request =
     \<lparr>product =
        \<lparr>name = ''Premium Coffee Maker'', price = Fin 89.99, category = HOME_GOODS,
         description = Some ''Programmable coffee maker with thermal carafe'',
         brand = Some ''BrewMaster'', in_stock = True\<rparr>,
      target_audience = ''home baristas'', tone = ''warm and inviting'',
      language = ''English''\<rparr>"

definition unbranded_request :: ProductListingRequest where
  "unbranded_request =
     \<lparr>product =
        \<lparr>name = ''Mug'', price = Fin 5, category = OTHER,
         description = None, brand = None, in_stock = False\<rparr>,
      target_audience = ''general'', tone = ''professional'', language = ''English''\<rparr>"

definition sample_reply_text :: string where
  \<open>sample_reply_text =
     ''{"title": "Premium Coffee Maker for Home Baristas", '' @
     ''"description": "Brew rich, aromatic coffee every morning with this programmable '' @
     ''coffee maker and its thermal carafe that keeps coffee hot for hours.", '' @
     ''"features": ["Programmable timer", "Thermal carafe", "Auto shut-off"], '' @
     ''"keywords": "coffee maker, thermal carafe, programmable"}''\<close>

definition sample_reply :: json where
  "sample_reply =
     JDict
       [(''title'', JStr ''Premium Coffee Maker for Home Baristas''),
        (''description'',
         JStr (''Brew rich, aromatic coffee every morning with this programmable '' @
               ''coffee maker and its thermal carafe that keeps coffee hot for hours.'')),
        (''features'',
         JList [JStr ''Programmable timer'', JStr ''Thermal carafe'', JStr ''Auto shut-off'']),
        (''keywords'', JStr ''coffee maker, thermal carafe, programmable'')]"

definition sample_loads :: "string \<Rightarrow> loads_result" where
  "sample_loads text =
     (if text = sample_reply_text then Loaded sample_reply
      else if text = ''42'' then Loaded (JInt 42)
      else if text = ''{}'' then Loaded (JDict [])
      else if text = ''[]'' then Loaded (JList [])
      else if text = replicate 4301 (CHR ''1'') then LoadsRaised ValueError
      else JSONDecodeError)"

definition sample_error_msg :: "field_error \<Rightarrow> string" where
  "sample_error_msg e =
     (case kind e of
        Missing \<Rightarrow> ''Field required''
      | GreaterThan \<Rightarrow> ''Input should be greater than 0''
      | ValidatorValueError m \<Rightarrow> ''Value error, '' @ m
      | _ \<Rightarrow> ''?'')"

fun sample_float_str :: "pyfloat \<Rightarrow> string" where
  "sample_float_str (Fin r) = (if r = 89.99 then ''89.99'' else if r = 5 then ''5.0'' else ''?'')"
| "sample_float_str PosInf = ''inf''"
| "sample_float_str NegInf = ''-inf''"
| "sample_float_str NaN = ''nan''"

definition sample_library :: library where
  "sample_library =
     \<lparr>loads = sample_loads,
      lax_float = (\<lambda>j. None),
      lax_bool = (\<lambda>j. None),
      error_msg = sample_error_msg,
      float_str = sample_float_str,
      category_str = category_value\<rparr>"

definition api_down :: "string \<Rightarrow> api_result" where
  "api_down p = ApiException"

definition api_interrupted :: "string \<Rightarrow> api_result" where
  "api_interrupted p = ApiBaseException"

definition reply_with :: "string \<Rightarrow> string \<Rightarrow> api_result" where
  "reply_with content p = ApiContent (Some content)"

section \<open>The cleaning of the reply\<close>

lemma startswith_append: "startswith (p @ s) p"
  by (simp add: startswith_def)

lemma slice_wrapped: "length p = a \<Longrightarrow> length q = b \<Longrightarrow> slice a b (p @ body @ q) = body"
  by (simp add: slice_def)

lemma clean_response_json_fence: "clean_response (''```json'' @ body @ ''```'') = body"
proof -
  have "startswith (''```json'' @ body @ ''```'') ''```json''"
    by (rule startswith_append)
  moreover have "slice 7 3 (''```json'' @ body @ ''```'') = body"
    by (rule slice_wrapped) simp_all
  ultimately show ?thesis
    by (simp only: clean_response_def if_True)
qed

lemma clean_response_plain_fence:
  assumes "\<not> startswith (body @ ''```'') ''json''"
  shows "clean_response (''```'' @ body @ ''```'') = body"
proof -
  have n: "\<not> startswith (''```'' @ body @ ''```'') ''```json''"
    using assms by (simp add: startswith_def)
  have "startswith (''```'' @ body @ ''```'') ''```''"
    by (rule startswith_append)
  moreover have "slice 3 3 (''```'' @ body @ ''```'') = body"
    by (rule slice_wrapped) simp_all
  ultimately show ?thesis
    using n by (simp only: clean_response_def if_True if_False)
qed

lemma startswith_json_fence: "startswith s ''```json'' \<Longrightarrow> startswith s ''```''"
proof -
  assume "startswith s ''```json''"
  then have "take (length ''```json'') s = ''```json''"
    unfolding startswith_def .
  then have "take (length ''```'') (take (length ''```json'') s) = take (length ''```'') ''```json''"
    by (rule arg_cong)
  then show ?thesis
    unfolding startswith_def by simp
qed

lemma clean_response_no_fence: "\<not> startswith content ''```'' \<Longrightarrow> clean_response content = content"
  using startswith_json_fence[of content] by (auto simp add: clean_response_def)

lemma clean_response_unclosed: "startswith content ''```json'' \<Longrightarrow> clean_response content = drop 7 (take (length content - 3) content)"
  by (simp add: clean_response_def slice_def)

text \<open>
  C4. The cleaning removes exactly the markers of a reply wrapped in a JSON code fence
  (\<open>clean_response_json_fence\<close>) and leaves a reply without a fence marker as it is
  (\<open>clean_response_no_fence\<close>). It does not look at the end of a reply that opens with
  a fence: here the reply opens with the JSON marker and has no closing fence, and the
  last three characters of its body, a JSON object, are deleted.
\<close>

theorem clean_response_unclosed_json_fence:
  \<open>clean_response ''```json{"a": 1}'' = ''{"a":''\<close>
  by (simp add: clean_response_def startswith_def slice_def)

section \<open>What the validators accept\<close>

lemma validate_Product_Inr_iff:
  "validate_Product lib pre d = Inr p \<longleftrightarrow>
     required d pre ''name'' (validate_str 1 (Some 100)) = Inr (name p) \<and>
     required d pre ''price'' (validate_price lib) = Inr (price p) \<and>
     required d pre ''category'' validate_category = Inr (category p) \<and>
     with_default d pre ''description'' None (validate_optional_str (Some 500)) = Inr (Product.description p) \<and>
     with_default d pre ''brand'' None (validate_optional_str (Some 50)) = Inr (brand p) \<and>
     with_default d pre ''in_stock'' True (validate_bool lib) = Inr (in_stock p)"
  unfolding validate_Product_def Let_def
  by (cases p) (auto split: sum.splits)

lemma validate_ProductListingRequest_Inr_iff:
  "validate_ProductListingRequest lib d = Inr r \<longleftrightarrow>
     required d [] ''product'' (validate_product_field lib) = Inr (product r) \<and>
     with_default d [] ''target_audience'' ''general'' (validate_str 0 None) = Inr (target_audience r) \<and>
     with_default d [] ''tone'' ''professional'' (validate_str 0 None) = Inr (tone r) \<and>
     with_default d [] ''language'' ''English'' (validate_str 0 None) = Inr (language r)"
  unfolding validate_ProductListingRequest_def Let_def
  by (cases r) (auto split: sum.splits)

lemma validate_ChatGPTResponse_Inr_iff:
  "validate_ChatGPTResponse d = Inr r \<longleftrightarrow>
     required d [] ''title'' (validate_str 10 (Some 100)) = Inr (title r) \<and>
     required d [] ''description'' (validate_str 100 (Some 1000)) = Inr (ChatGPTResponse.description r) \<and>
     required d [] ''features'' validate_features = Inr (features r) \<and>
     required d [] ''keywords'' (validate_str 10 None) = Inr (keywords_text r)"
  unfolding validate_ChatGPTResponse_def Let_def
  by (cases r) (auto split: sum.splits)

lemma validate_str_Inr_iff:
  "validate_str lo hi l j = Inr s \<longleftrightarrow>
     j = JStr s \<and> lo \<le> length s \<and> (case hi of None \<Rightarrow> True | Some m \<Rightarrow> length s \<le> m)"
  by (cases j) (auto simp add: validate_str_def split: option.splits)

lemma validate_optional_str_Inr_iff:
  "validate_optional_str hi l j = Inr v \<longleftrightarrow>
     (case v of None \<Rightarrow> j = JNull
      | Some s \<Rightarrow> j = JStr s \<and> (case hi of None \<Rightarrow> True | Some m \<Rightarrow> length s \<le> m))"
  by (cases j; cases v) (auto simp add: validate_optional_str_def validate_str_def split: option.splits)

lemma validate_price_Inr_iff:
  "validate_price lib l j = Inr v \<longleftrightarrow>
     to_float lib j = Some v \<and> float_gt v 0 \<and> \<not> float_gt v 1000000"
  by (auto simp add: validate_price_def price_not_too_high_def split: option.splits)

lemma validate_bool_Inr_iff: "validate_bool lib l j = Inr b \<longleftrightarrow> to_bool lib j = Some b"
  by (auto simp add: validate_bool_def split: option.splits)

lemma category_value_inj: "category_value c = category_value c' \<Longrightarrow> c = c'"
  by (cases c; cases c') simp_all

lemma validate_category_Inr_iff:
  "validate_category l j = Inr c \<longleftrightarrow> j = JStr (category_value c)"
  by (cases j; cases c) (auto simp add: validate_category_def split: list.splits if_splits)


lemma required_Inr_iff:
  "required d pre k v = Inr x \<longleftrightarrow> (\<exists>j. map_of d k = Some j \<and> v (pre @ [Key k]) j = Inr x)"
  by (auto simp add: required_def split: option.splits)

lemma with_default_Inr_iff:
  "with_default d pre k dflt v = Inr x \<longleftrightarrow>
     (case map_of d k of None \<Rightarrow> x = dflt | Some j \<Rightarrow> v (pre @ [Key k]) j = Inr x)"
  by (auto simp add: with_default_def split: option.splits)

lemma to_float_JFloat: "to_float lib (JFloat v) = Some v"
  by (simp add: to_float_def)

lemma float_overflow_above_prices: "1000000 < float_overflow"
  by code_simp

lemma to_float_beyond_float_range: "to_float lib (JInt (10 ^ 400)) = None"
  by code_simp

lemma to_float_JInt:
  "\<bar>n\<bar> \<le> 1000000 \<Longrightarrow> to_float lib (JInt n) = Some (Fin (of_int n))"
  using float_overflow_above_prices by (simp add: to_float_def)

lemma to_bool_JBool: "to_bool lib (JBool b) = Some b"
  by (simp add: to_bool_def)

lemma validate_Product_dict:
  assumes "validate_Product lib pre d = Inr p"
  shows "validate_Product lib pre' (dict_Product p) = Inr p"
proof -
  have n: "1 \<le> length (name p) \<and> length (name p) \<le> 100"
    using assms by (auto simp add: validate_Product_Inr_iff required_Inr_iff validate_str_Inr_iff)
  have pr: "float_gt (price p) 0 \<and> \<not> float_gt (price p) 1000000"
    using assms by (auto simp add: validate_Product_Inr_iff required_Inr_iff validate_price_Inr_iff)
  have de: "case Product.description p of None \<Rightarrow> True | Some s \<Rightarrow> length s \<le> 500"
    using assms
    by (auto simp add: validate_Product_Inr_iff with_default_Inr_iff validate_optional_str_Inr_iff
        split: option.splits)
  have br: "case brand p of None \<Rightarrow> True | Some s \<Rightarrow> length s \<le> 50"
    using assms
    by (auto simp add: validate_Product_Inr_iff with_default_Inr_iff validate_optional_str_Inr_iff
        split: option.splits)
  show ?thesis
    using n pr de br
    by (auto simp add: validate_Product_Inr_iff required_Inr_iff with_default_Inr_iff
        dict_Product_def validate_str_Inr_iff validate_price_Inr_iff to_float_JFloat
        validate_category_Inr_iff validate_optional_str_Inr_iff optional_json_def
        validate_bool_Inr_iff to_bool_JBool split: option.splits)
qed

lemma validate_product_field_Inr_iff:
  "validate_product_field lib l j = Inr p \<longleftrightarrow> (\<exists>pd. j = JDict pd \<and> validate_Product lib l pd = Inr p)"
  by (cases j) (auto simp add: validate_product_field_def)

lemma validate_ProductListingRequest_dict:
  assumes "validate_ProductListingRequest lib d = Inr r"
  shows "validate_ProductListingRequest lib (dict_ProductListingRequest r) = Inr r"
proof -
  obtain pd where "validate_Product lib [Key ''product''] pd = Inr (product r)"
    using assms
    by (auto simp add: validate_ProductListingRequest_Inr_iff required_Inr_iff
        validate_product_field_Inr_iff)
  then have "validate_Product lib [Key ''product''] (dict_Product (product r)) = Inr (product r)"
    by (rule validate_Product_dict)
  then show ?thesis
    by (simp add: validate_ProductListingRequest_Inr_iff required_Inr_iff with_default_Inr_iff
        dict_ProductListingRequest_def validate_product_field_Inr_iff validate_str_Inr_iff)
qed

text \<open>
  C9. A request that \<^verbatim>\<open>validate_input\<close> has accepted, written back with
  \<^verbatim>\<open>.dict()\<close> and validated again, is accepted, and the request that comes out is
  the same request, field for field.
\<close>

theorem validate_input_dict_roundtrip:
  assumes "snd (validate_input lib json_data) = Inr (Some request)"
  shows "validate_input lib (JDict (dict_ProductListingRequest request)) =
           ([ValidatingInput, InputValidationPassed], Inr (Some request))"
proof -
  obtain d where "validate_ProductListingRequest lib d = Inr request"
    using assms
    by (cases json_data) (auto simp add: validate_input_def split: sum.splits)
  then have "validate_ProductListingRequest lib (dict_ProductListingRequest request) = Inr request"
    by (rule validate_ProductListingRequest_dict)
  then show ?thesis
    by (simp add: validate_input_def)
qed

lemma validate_input_test_data:
  "validate_input sample_library test_data =
     ([ValidatingInput, InputValidationPassed], Inr (Some test_request))"
  by code_simp

theorem validate_input_dict_roundtrip_witness:
  "snd (validate_input sample_library test_data) = Inr (Some test_request) \<and>
   validate_input sample_library (JDict (dict_ProductListingRequest test_request)) =
     ([ValidatingInput, InputValidationPassed], Inr (Some test_request))"
proof -
  have h: "snd (validate_input sample_library test_data) = Inr (Some test_request)"
    by (simp add: validate_input_test_data)
  show ?thesis
    using h validate_input_dict_roundtrip [OF h] by simp
qed

section \<open>The price\<close>

lemma validate_price_refused:
  assumes "to_float lib j = None \<or>
    (\<exists>v. to_float lib j = Some v \<and> (\<not> float_gt v 0 \<or> float_gt v 1000000))"
  shows "validate_price lib l j \<noteq> Inr p"
  using assms by (auto simp add: validate_price_Inr_iff)

lemma to_float_JInt_out_of_range:
  assumes "n \<le> 0 \<or> 1000000 < n"
  shows "to_float lib (JInt n) = None \<or>
    (\<exists>v. to_float lib (JInt n) = Some v \<and> (\<not> float_gt v 0 \<or> float_gt v 1000000))"
  using assms by (auto simp add: to_float_def)

lemma validate_Product_price_rejected:
  assumes "map_of pd ''price'' = Some j"
    and "to_float lib j = None \<or>
      (\<exists>v. to_float lib j = Some v \<and> (\<not> float_gt v 0 \<or> float_gt v 1000000))"
  shows "\<exists>es. validate_Product lib pre pd = Inl es"
proof (cases "validate_Product lib pre pd")
  case (Inl es)
  then show ?thesis by blast
next
  case (Inr p)
  then have "validate_price lib (pre @ [Key ''price'']) j = Inr (price p)"
    using assms(1) by (simp add: validate_Product_Inr_iff required_Inr_iff)
  then show ?thesis
    using validate_price_refused [OF assms(2)] by simp
qed

lemma validate_ProductListingRequest_price_rejected:
  assumes "map_of d ''product'' = Some (JDict pd)"
    and "map_of pd ''price'' = Some j"
    and "to_float lib j = None \<or>
      (\<exists>v. to_float lib j = Some v \<and> (\<not> float_gt v 0 \<or> float_gt v 1000000))"
  shows "\<exists>es. validate_ProductListingRequest lib d = Inl es"
proof (cases "validate_ProductListingRequest lib d")
  case (Inl es)
  then show ?thesis by blast
next
  case (Inr r)
  then have "validate_Product lib [Key ''product''] pd = Inr (product r)"
    using assms(1)
    by (simp add: validate_ProductListingRequest_Inr_iff required_Inr_iff
        validate_product_field_Inr_iff)
  then show ?thesis
    using validate_Product_price_rejected [OF assms(2,3), of "[Key ''product'']"] by simp
qed

lemma validate_input_Inl_None:
  "validate_ProductListingRequest lib d = Inl es \<Longrightarrow>
   validate_input lib (JDict d) =
     ([ValidatingInput, InputValidationFailed (printed_errors lib es)], Inr None)"
  by (simp add: validate_input_def)

lemma validate_input_Inr_Some:
  "validate_ProductListingRequest lib d = Inr r \<Longrightarrow>
   validate_input lib (JDict d) = ([ValidatingInput, InputValidationPassed], Inr (Some r))"
  by (simp add: validate_input_def)

lemma validate_Product_price_replaced:
  assumes "validate_Product lib pre pd = Inr p"
    and "map_of pd' = (map_of pd)(''price'' \<mapsto> j)"
    and "to_float lib j = Some v" and "float_gt v 0" and "\<not> float_gt v 1000000"
  shows "validate_Product lib pre pd' = Inr (p\<lparr>price := v\<rparr>)"
  using assms
  by (simp add: validate_Product_Inr_iff required_Inr_iff with_default_Inr_iff
      validate_price_Inr_iff)

lemma validate_ProductListingRequest_price_replaced:
  assumes "validate_ProductListingRequest lib d = Inr r"
    and "map_of d ''product'' = Some (JDict pd)"
    and "map_of pd' = (map_of pd)(''price'' \<mapsto> j)"
    and "map_of d' = (map_of d)(''product'' \<mapsto> JDict pd')"
    and "to_float lib j = Some v" and "float_gt v 0" and "\<not> float_gt v 1000000"
  shows "validate_ProductListingRequest lib d' = Inr (r\<lparr>product := (product r)\<lparr>price := v\<rparr>\<rparr>)"
proof -
  have "validate_Product lib [Key ''product''] pd = Inr (product r)"
    using assms(1,2)
    by (simp add: validate_ProductListingRequest_Inr_iff required_Inr_iff
        validate_product_field_Inr_iff)
  then have "validate_Product lib [Key ''product''] pd' = Inr ((product r)\<lparr>price := v\<rparr>)"
    using assms(3,5,6,7) by (rule validate_Product_price_replaced)
  then show ?thesis
    using assms(1,4)
    by (simp add: validate_ProductListingRequest_Inr_iff required_Inr_iff with_default_Inr_iff
        validate_product_field_Inr_iff)
qed

text \<open>
  C5. Whatever the other fields, a request is refused when its price is a number at most
  0 or above 1000000: a float, an integer of any size, or any value that converts to such
  a float or to an infinite one; so is a request whose price does not convert. A request
  that is accepted is still accepted when its price is replaced by any number in the
  interval from 0 (excluded) to 1000000 (included), and the request that comes out
  differs in the price only.
\<close>

theorem price_bounds:
  "(map_of d ''product'' = Some (JDict pd) \<and> map_of pd ''price'' = Some j \<and>
    (to_float lib j = Some (Fin x) \<and> (x \<le> 0 \<or> 1000000 < x) \<or>
     to_float lib j = Some PosInf \<or> to_float lib j = Some NegInf \<or>
     j = JInt n \<and> (n \<le> 0 \<or> 1000000 < n) \<or>
     to_float lib j = None)
    \<longrightarrow> snd (validate_input lib (JDict d)) = Inr None) \<and>
   (validate_ProductListingRequest lib d = Inr request \<and>
    map_of d ''product'' = Some (JDict pd) \<and>
    map_of pd' = (map_of pd)(''price'' \<mapsto> j) \<and>
    map_of d' = (map_of d)(''product'' \<mapsto> JDict pd') \<and>
    to_float lib j = Some (Fin x) \<and> 0 < x \<and> x \<le> 1000000
    \<longrightarrow> snd (validate_input lib (JDict d')) =
          Inr (Some (request\<lparr>product := (product request)\<lparr>price := Fin x\<rparr>\<rparr>)))"
proof (intro conjI impI)
  assume a: "map_of d ''product'' = Some (JDict pd) \<and> map_of pd ''price'' = Some j \<and>
    (to_float lib j = Some (Fin x) \<and> (x \<le> 0 \<or> 1000000 < x) \<or>
     to_float lib j = Some PosInf \<or> to_float lib j = Some NegInf \<or>
     j = JInt n \<and> (n \<le> 0 \<or> 1000000 < n) \<or>
     to_float lib j = None)"
  then have "to_float lib j = None \<or>
      (\<exists>v. to_float lib j = Some v \<and> (\<not> float_gt v 0 \<or> float_gt v 1000000))"
    using to_float_JInt_out_of_range [of n lib] by auto
  with a obtain es where "validate_ProductListingRequest lib d = Inl es"
    using validate_ProductListingRequest_price_rejected by blast
  then show "snd (validate_input lib (JDict d)) = Inr None"
    by (simp add: validate_input_Inl_None)
next
  assume b: "validate_ProductListingRequest lib d = Inr request \<and>
    map_of d ''product'' = Some (JDict pd) \<and>
    map_of pd' = (map_of pd)(''price'' \<mapsto> j) \<and>
    map_of d' = (map_of d)(''product'' \<mapsto> JDict pd') \<and>
    to_float lib j = Some (Fin x) \<and> 0 < x \<and> x \<le> 1000000"
  then have "validate_ProductListingRequest lib d' =
      Inr (request\<lparr>product := (product request)\<lparr>price := Fin x\<rparr>\<rparr>)"
    by (intro validate_ProductListingRequest_price_replaced
        [where d = d and pd = pd and pd' = pd' and j = j]) auto
  then show "snd (validate_input lib (JDict d')) =
      Inr (Some (request\<lparr>product := (product request)\<lparr>price := Fin x\<rparr>\<rparr>))"
    by (simp add: validate_input_Inr_Some)
qed

theorem price_bounds_witness:
  "snd (validate_input sample_library
          (JDict ((''product'', JDict ((''price'', JInt (- 5)) # test_product)) # test_dict))) = Inr None \<and>
   snd (validate_input sample_library
          (JDict ((''product'', JDict ((''price'', JFloat (Fin 1000000.5)) # test_product)) # test_dict))) = Inr None \<and>
   snd (validate_input sample_library
          (JDict ((''product'', JDict ((''price'', JInt (10 ^ 400)) # test_product)) # test_dict))) =
     Inr None \<and>
   snd (validate_input sample_library
          (JDict ((''product'', JDict ((''price'', JInt 1000000) # test_product)) # test_dict))) =
     Inr (Some (test_request\<lparr>product := (product test_request)\<lparr>price := Fin 1000000\<rparr>\<rparr>))"
proof -
  have "(1000000 :: int) < 10 ^ 400"
    by code_simp
  then have huge: "snd (validate_input sample_library
          (JDict ((''product'', JDict ((''price'', JInt (10 ^ 400)) # test_product)) # test_dict))) =
     Inr None"
    using price_bounds [where lib = sample_library and j = "JInt (10 ^ 400)" and n = "10 ^ 400"
        and pd = "(''price'', JInt (10 ^ 400)) # test_product"
        and d = "(''product'', JDict ((''price'', JInt (10 ^ 400)) # test_product)) # test_dict",
        THEN conjunct1]
    by simp
  have v: "validate_ProductListingRequest sample_library test_dict = Inr test_request"
    by code_simp
  have p: "map_of test_dict ''product'' = Some (JDict test_product)"
    by (simp add: test_dict_def)
  have low: "snd (validate_input sample_library
          (JDict ((''product'', JDict ((''price'', JInt (- 5)) # test_product)) # test_dict))) = Inr None"
    using price_bounds [where lib = sample_library and j = "JInt (- 5)" and x = "- 5"
        and pd = "(''price'', JInt (- 5)) # test_product"
        and d = "(''product'', JDict ((''price'', JInt (- 5)) # test_product)) # test_dict",
        THEN conjunct1]
    by (simp add: to_float_JInt to_float_JFloat)
  have high: "snd (validate_input sample_library
          (JDict ((''product'', JDict ((''price'', JFloat (Fin 1000000.5)) # test_product)) # test_dict))) = Inr None"
    using price_bounds [where lib = sample_library and j = "JFloat (Fin 1000000.5)" and x = "1000000.5"
        and pd = "(''price'', JFloat (Fin 1000000.5)) # test_product"
        and d = "(''product'', JDict ((''price'', JFloat (Fin 1000000.5)) # test_product)) # test_dict",
        THEN conjunct1]
    by (simp add: to_float_JInt to_float_JFloat)
  have top: "snd (validate_input sample_library
          (JDict ((''product'', JDict ((''price'', JInt 1000000) # test_product)) # test_dict))) =
     Inr (Some (test_request\<lparr>product := (product test_request)\<lparr>price := Fin 1000000\<rparr>\<rparr>))"
    using v p price_bounds [where lib = sample_library and j = "JInt 1000000" and x = "1000000"
        and pd = test_product and d = test_dict and request = test_request
        and pd' = "(''price'', JInt 1000000) # test_product"
        and d' = "(''product'', JDict ((''price'', JInt 1000000) # test_product)) # test_dict",
        THEN conjunct2]
    by (simp add: to_float_JInt to_float_JFloat)
  show ?thesis
    using low high huge top by simp
qed

section \<open>The name\<close>

lemma validate_Product_step3_Inr_iff:
  "validate_Product_step3 lib pre d = Inr p \<longleftrightarrow>
     required d pre ''name'' validate_name_step3 = Inr (name p) \<and>
     required d pre ''price'' (validate_price_step3 lib) = Inr (price p) \<and>
     required d pre ''category'' validate_category = Inr (category p) \<and>
     with_default d pre ''description'' None (validate_optional_str (Some 500)) = Inr (Product.description p) \<and>
     with_default d pre ''brand'' None (validate_optional_str (Some 50)) = Inr (brand p) \<and>
     with_default d pre ''in_stock'' True (validate_bool lib) = Inr (in_stock p)"
  unfolding validate_Product_step3_def Let_def
  by (cases p) (auto split: sum.splits)

lemma validate_ProductListingRequest_step3_Inr_iff:
  "validate_ProductListingRequest_step3 lib d = Inr r \<longleftrightarrow>
     required d [] ''product'' (validate_product_field_step3 lib) = Inr (product r) \<and>
     with_default d [] ''target_audience'' ''general'' (validate_str 0 None) = Inr (target_audience r) \<and>
     with_default d [] ''tone'' ''professional'' (validate_str 0 None) = Inr (tone r) \<and>
     with_default d [] ''language'' ''English'' (validate_str 0 None) = Inr (language r)"
  unfolding validate_ProductListingRequest_step3_def Let_def
  by (cases r) (auto split: sum.splits)

lemma validate_product_field_step3_Inr_iff:
  "validate_product_field_step3 lib l j = Inr p \<longleftrightarrow>
     (\<exists>pd. j = JDict pd \<and> validate_Product_step3 lib l pd = Inr p)"
  by (cases j) (auto simp add: validate_product_field_step3_def)

lemma validate_name_step3_Inr_iff:
  "validate_name_step3 l j = Inr n \<longleftrightarrow>
     (\<exists>s. j = JStr s \<and> 1 \<le> length s \<and> length s \<le> 100 \<and> list_ex isalpha s \<and> n = strip s)"
  by (cases j)
    (auto simp add: validate_name_step3_def validate_str_def name_must_contain_letters_def
      Suc_le_eq split: sum.splits if_splits)

text \<open>
  In \<^verbatim>\<open>validate_json_step3.py\<close> a name with no letter is refused and an accepted name
  is stored stripped.
\<close>

lemma name_must_contain_letters_step3:
  "(map_of d ''product'' = Some (JDict pd) \<and> map_of pd ''name'' = Some (JStr s) \<and>
    \<not> list_ex isalpha s
    \<longrightarrow> (\<exists>es. validate_ProductListingRequest_step3 lib d = Inl es)) \<and>
   (validate_ProductListingRequest_step3 lib d = Inr request
    \<longrightarrow> (\<exists>pd s. map_of d ''product'' = Some (JDict pd) \<and> map_of pd ''name'' = Some (JStr s) \<and>
           list_ex isalpha s \<and> name (product request) = strip s))"
proof (intro conjI impI)
  assume a: "map_of d ''product'' = Some (JDict pd) \<and> map_of pd ''name'' = Some (JStr s) \<and>
    \<not> list_ex isalpha s"
  show "\<exists>es. validate_ProductListingRequest_step3 lib d = Inl es"
  proof (cases "validate_ProductListingRequest_step3 lib d")
    case (Inl es)
    then show ?thesis by blast
  next
    case (Inr r)
    then have "validate_name_step3 [Key ''product'', Key ''name''] (JStr s) = Inr (name (product r))"
      using a
      by (auto simp add: validate_ProductListingRequest_step3_Inr_iff required_Inr_iff
          validate_product_field_step3_Inr_iff validate_Product_step3_Inr_iff)
    then show ?thesis
      using a by (simp add: validate_name_step3_Inr_iff)
  qed
next
  assume "validate_ProductListingRequest_step3 lib d = Inr request"
  then show "\<exists>pd s. map_of d ''product'' = Some (JDict pd) \<and> map_of pd ''name'' = Some (JStr s) \<and>
           list_ex isalpha s \<and> name (product request) = strip s"
    by (auto simp add: validate_ProductListingRequest_step3_Inr_iff required_Inr_iff
        validate_product_field_step3_Inr_iff validate_Product_step3_Inr_iff
        validate_name_step3_Inr_iff)
qed

lemma step3_refuses_digits:
  "validate_ProductListingRequest_step3 lib
     [(''product'', JDict [(''name'', JStr ''12345''), (''price'', JInt 5),
                           (''category'', JStr ''books'')])] =
   Inl [FieldError [Key ''product'', Key ''name''] (ValidatorValueError ''Name must contain letters'')]"
  by code_simp

text \<open>
  C3. \<^verbatim>\<open>Product\<close> of \<^verbatim>\<open>step4_integration.py\<close>, the one \<^verbatim>\<open>validate_input\<close> uses,
  has no validator for the name: a product named \<^verbatim>\<open>12345\<close>, which
  \<^verbatim>\<open>validate_json_step3.py\<close> refuses (\<open>step3_refuses_digits\<close>), is accepted.
\<close>

theorem validate_input_accepts_name_without_letter:
  "snd (validate_input lib
     (JDict [(''product'', JDict [(''name'', JStr ''12345''), (''price'', JInt 5),
                                  (''category'', JStr ''books'')])])) =
   Inr (Some \<lparr>product = \<lparr>name = ''12345'', price = Fin 5, category = BOOKS,
                          description = None, brand = None, in_stock = True\<rparr>,
              target_audience = ''general'', tone = ''professional'', language = ''English''\<rparr>)"
  by code_simp

lemma validate_input_keeps_surrounding_space:
  "snd (validate_input lib
     (JDict [(''product'', JDict [(''name'', JStr '' Mug ''), (''price'', JInt 5),
                                  (''category'', JStr ''books'')])])) =
   Inr (Some \<lparr>product = \<lparr>name = '' Mug '', price = Fin 5, category = BOOKS,
                          description = None, brand = None, in_stock = True\<rparr>,
              target_audience = ''general'', tone = ''professional'', language = ''English''\<rparr>)"
  by code_simp

lemma strip_Mug: "strip '' Mug '' = ''Mug''"
  by code_simp

section \<open>The prompt\<close>

lemma sublist_concat_here: "sublist (a @ b @ c) (concat (a # b # c # rest))"
proof -
  have "concat (a # b # c # rest) = [] @ (a @ b @ c) @ concat rest"
    by simp
  then show ?thesis
    by (simp only: sublist_appendI)
qed

lemma sublist_concat_skip: "sublist x (concat ys) \<Longrightarrow> sublist x (concat (y # ys))"
proof -
  assume "sublist x (concat ys)"
  then obtain ps ss where "concat ys = ps @ x @ ss"
    by (auto simp add: sublist_def)
  then have "concat (y # ys) = (y @ ps) @ x @ ss"
    by simp
  then show ?thesis
    by (simp only: sublist_appendI)
qed

lemma prompt_lines:
  "sublist (''- Name: '' @ name (product r) @ nl) (prompt lib r)"
  "sublist (''- Price: $'' @ float_str lib (price (product r)) @ nl) (prompt lib r)"
  "sublist (''- Category: '' @ category_str lib (category (product r)) @ nl) (prompt lib r)"
  "sublist (''- Brand: '' @ str_or (brand (product r)) ''Not specified'' @ nl) (prompt lib r)"
  "sublist (''- Description: '' @
            str_or (Product.description (product r)) ''No description provided'' @ nl)
     (prompt lib r)"
  "sublist (''- In Stock: '' @ (if in_stock (product r) then ''Yes'' else ''No'') @ nl)
     (prompt lib r)"
  "sublist (''TARGET AUDIENCE: '' @ target_audience r @ nl) (prompt lib r)"
  "sublist (''TONE: '' @ tone r @ nl) (prompt lib r)"
  "sublist (''LANGUAGE: '' @ language r @ nl) (prompt lib r)"
  unfolding prompt_def Let_def
  by (rule sublist_concat_here | rule sublist_concat_skip)+

lemma str_or_simps:
  "str_or None dflt = dflt"
  "s \<noteq> [] \<Longrightarrow> str_or (Some s) dflt = s"
  "str_or (Some []) dflt = dflt"
  by (simp_all add: str_or_def)

text \<open>
  C8. The prompt is a function of the request (and of how the runtime renders a float and
  a category). It holds a line for each field of the product and for each of the three
  generation parameters; the brand line reads \<^verbatim>\<open>Not specified\<close> and the description
  line \<^verbatim>\<open>No description provided\<close> when the field is absent, and the stock line reads
  \<^verbatim>\<open>Yes\<close> or \<^verbatim>\<open>No\<close>. Equal requests give equal prompts.
\<close>

theorem prompt_embeds_request:
  "sublist (''- Name: '' @ name (product r) @ nl) (prompt lib r) \<and>
   sublist (''- Price: $'' @ float_str lib (price (product r)) @ nl) (prompt lib r) \<and>
   sublist (''- Category: '' @ category_str lib (category (product r)) @ nl) (prompt lib r) \<and>
   (brand (product r) = None \<longrightarrow> sublist (''- Brand: Not specified'' @ nl) (prompt lib r)) \<and>
   (\<forall>b. brand (product r) = Some b \<and> b \<noteq> [] \<longrightarrow> sublist (''- Brand: '' @ b @ nl) (prompt lib r)) \<and>
   (Product.description (product r) = None \<longrightarrow>
      sublist (''- Description: No description provided'' @ nl) (prompt lib r)) \<and>
   (\<forall>t. Product.description (product r) = Some t \<and> t \<noteq> [] \<longrightarrow>
      sublist (''- Description: '' @ t @ nl) (prompt lib r)) \<and>
   (in_stock (product r) \<longrightarrow> sublist (''- In Stock: Yes'' @ nl) (prompt lib r)) \<and>
   (\<not> in_stock (product r) \<longrightarrow> sublist (''- In Stock: No'' @ nl) (prompt lib r)) \<and>
   sublist (''TARGET AUDIENCE: '' @ target_audience r @ nl) (prompt lib r) \<and>
   sublist (''TONE: '' @ tone r @ nl) (prompt lib r) \<and>
   sublist (''LANGUAGE: '' @ language r @ nl) (prompt lib r) \<and>
   (r = r' \<longrightarrow> prompt lib r = prompt lib r')"
proof -
  have brand_none: "sublist (''- Brand: Not specified'' @ nl) (prompt lib r)"
    if "brand (product r) = None"
    using prompt_lines(4) [where r = r and lib = lib] that by (simp add: str_or_simps)
  have brand_some: "sublist (''- Brand: '' @ b @ nl) (prompt lib r)"
    if "brand (product r) = Some b \<and> b \<noteq> []" for b
    using prompt_lines(4) [where r = r and lib = lib] that by (simp add: str_or_simps)
  have description_none: "sublist (''- Description: No description provided'' @ nl) (prompt lib r)"
    if "Product.description (product r) = None"
    using prompt_lines(5) [where r = r and lib = lib] that by (simp add: str_or_simps)
  have description_some: "sublist (''- Description: '' @ t @ nl) (prompt lib r)"
    if "Product.description (product r) = Some t \<and> t \<noteq> []" for t
    using prompt_lines(5) [where r = r and lib = lib] that by (simp add: str_or_simps)
  have yes: "sublist (''- In Stock: Yes'' @ nl) (prompt lib r)" if "in_stock (product r)"
    using prompt_lines(6) [where r = r and lib = lib] that by simp
  have no: "sublist (''- In Stock: No'' @ nl) (prompt lib r)" if "\<not> in_stock (product r)"
    using prompt_lines(6) [where r = r and lib = lib] that by simp
  show ?thesis
    using prompt_lines(1,2,3,7,8,9) [where r = r and lib = lib] brand_none brand_some description_none
      description_some yes no
    by blast
qed

theorem prompt_embeds_request_witness:
  "sublist (''- Name: Premium Coffee Maker'' @ nl) (prompt sample_library test_request) \<and>
   sublist (''- Price: $89.99'' @ nl) (prompt sample_library test_request) \<and>
   sublist (''- Category: home_goods'' @ nl) (prompt sample_library test_request) \<and>
   sublist (''- Brand: BrewMaster'' @ nl) (prompt sample_library test_request) \<and>
   sublist (''- Description: Programmable coffee maker with thermal carafe'' @ nl)
     (prompt sample_library test_request) \<and>
   sublist (''- In Stock: Yes'' @ nl) (prompt sample_library test_request) \<and>
   sublist (''TARGET AUDIENCE: home baristas'' @ nl) (prompt sample_library test_request) \<and>
   sublist (''- Brand: Not specified'' @ nl) (prompt sample_library unbranded_request) \<and>
   sublist (''- Description: No description provided'' @ nl)
     (prompt sample_library unbranded_request) \<and>
   sublist (''- In Stock: No'' @ nl) (prompt sample_library unbranded_request)"
proof -
  have a: "brand (product test_request) = Some ''BrewMaster'' \<and> ''BrewMaster'' \<noteq> []"
    by (simp add: test_request_def)
  have b: "Product.description (product test_request) =
             Some ''Programmable coffee maker with thermal carafe'' \<and>
           ''Programmable coffee maker with thermal carafe'' \<noteq> []"
    by (simp add: test_request_def)
  have c: "in_stock (product test_request)"
    by (simp add: test_request_def)
  have d: "brand (product unbranded_request) = None"
    and e: "Product.description (product unbranded_request) = None"
    and f: "\<not> in_stock (product unbranded_request)"
    by (simp_all add: unbranded_request_def)
  have g: "name (product test_request) = ''Premium Coffee Maker''"
    and h: "float_str sample_library (price (product test_request)) = ''89.99''"
    and i: "category_str sample_library (category (product test_request)) = ''home_goods''"
    and j: "target_audience test_request = ''home baristas''"
    by (simp_all add: test_request_def sample_library_def)
  note t = prompt_embeds_request [where r = test_request and lib = sample_library]
  note u = prompt_embeds_request [where r = unbranded_request and lib = sample_library]
  show ?thesis
    using t u a b c d e f unfolding g h i j by simp
qed

section \<open>The pipeline\<close>

lemma validate_input_JDict_cases:
  "validate_input lib (JDict d) =
     (case validate_ProductListingRequest lib d of
        Inr validated \<Rightarrow> ([ValidatingInput, InputValidationPassed], Inr (Some validated))
      | Inl es \<Rightarrow> ([ValidatingInput, InputValidationFailed (printed_errors lib es)], Inr None))"
  by (simp add: validate_input_def)

lemma validate_input_not_dict:
  "\<forall>d. json_data \<noteq> JDict d \<Longrightarrow> validate_input lib json_data = ([ValidatingInput], Inl TypeError)"
  by (cases json_data) (simp_all add: validate_input_def)

lemma call_chatgpt_failed:
  "client (prompt lib req) = ApiException \<or> client (prompt lib req) = ApiContent None \<Longrightarrow>
   call_chatgpt lib client req = ([CallingChatGPT, ChatGPTApiError], Inr None)"
  by (auto simp add: call_chatgpt_def)

lemma call_chatgpt_raises:
  "client (prompt lib req) = ApiBaseException \<Longrightarrow>
   call_chatgpt lib client req = ([CallingChatGPT], Inl BaseException)"
  by (simp add: call_chatgpt_def)

lemma call_chatgpt_content:
  "client (prompt lib req) = ApiContent (Some content) \<Longrightarrow>
   call_chatgpt lib client req =
     ([CallingChatGPT, ChatGPTResponseReceived], Inr (Some (clean_response content)))"
  by (simp add: call_chatgpt_def)

lemma validate_chatgpt_response_not_json:
  "loads lib text = JSONDecodeError \<Longrightarrow>
   validate_chatgpt_response lib text = ([ValidatingResponse, ResponseNotValidJson], Inr None)"
  by (simp add: validate_chatgpt_response_def)

lemma validate_chatgpt_response_schema:
  "loads lib text = Loaded (JDict rd) \<Longrightarrow> validate_ChatGPTResponse rd = Inl es \<Longrightarrow>
   validate_chatgpt_response lib text =
     ([ValidatingResponse, ResponseValidationFailed (printed_errors lib es)], Inr None)"
  by (simp add: validate_chatgpt_response_def)

lemma validate_chatgpt_response_passed:
  "loads lib text = Loaded (JDict rd) \<Longrightarrow> validate_ChatGPTResponse rd = Inr resp \<Longrightarrow>
   validate_chatgpt_response lib text =
     ([ValidatingResponse, ResponseValidationPassed], Inr (Some resp))"
  by (simp add: validate_chatgpt_response_def)

lemma validate_chatgpt_response_raised:
  "loads lib text = LoadsRaised e \<Longrightarrow>
   validate_chatgpt_response lib text = ([ValidatingResponse], Inl e)"
  by (simp add: validate_chatgpt_response_def)

lemma validate_chatgpt_response_not_object:
  "loads lib text = Loaded j \<Longrightarrow> \<forall>rd. j \<noteq> JDict rd \<Longrightarrow>
   validate_chatgpt_response lib text = ([ValidatingResponse], Inl TypeError)"
  by (cases j) (simp_all add: validate_chatgpt_response_def)

text \<open>The pipeline, stage by stage.\<close>

lemma process_input_invalid:
  "validate_input lib json_data = (log1, Inr None) \<Longrightarrow>
   process_product_request lib client json_data =
     (log1, Inr [(''status'', JStr ''input_validation_failed''),
                 (''error'', JStr ''Input data invalid'')])"
  by (simp add: process_product_request_def)

lemma process_input_raises:
  "validate_input lib json_data = (log1, Inl e) \<Longrightarrow>
   process_product_request lib client json_data = (log1, Inl e)"
  by (simp add: process_product_request_def)

lemma process_product_request_not_dict:
  "\<forall>d. json_data \<noteq> JDict d \<Longrightarrow>
   process_product_request lib client json_data = ([ValidatingInput], Inl TypeError)"
  by (rule process_input_raises) (rule validate_input_not_dict)

lemma process_chatgpt_failed:
  "validate_input lib json_data = (log1, Inr (Some req)) \<Longrightarrow>
   call_chatgpt lib client req = (log2, Inr reply) \<Longrightarrow> reply = None \<or> reply = Some [] \<Longrightarrow>
   process_product_request lib client json_data =
     (log1 @ log2, Inr [(''status'', JStr ''chatgpt_failed''),
                        (''error'', JStr ''ChatGPT API call failed'')])"
  by (auto simp add: process_product_request_def)

lemma process_chatgpt_raises:
  "validate_input lib json_data = (log1, Inr (Some req)) \<Longrightarrow>
   call_chatgpt lib client req = (log2, Inl e) \<Longrightarrow>
   process_product_request lib client json_data = (log1 @ log2, Inl e)"
  by (simp add: process_product_request_def)

lemma process_output:
  "validate_input lib json_data = (log1, Inr (Some req)) \<Longrightarrow>
   call_chatgpt lib client req = (log2, Inr (Some text)) \<Longrightarrow> text \<noteq> [] \<Longrightarrow>
   process_product_request lib client json_data =
     (case validate_chatgpt_response lib text of
        (log3, Inl e) \<Rightarrow> (log1 @ log2 @ log3, Inl e)
      | (log3, Inr None) \<Rightarrow>
          (log1 @ log2 @ log3,
           Inr [(''status'', JStr ''output_validation_failed''),
                (''error'', JStr ''ChatGPT response invalid''),
                (''raw_response'', JStr text)])
      | (log3, Inr (Some resp)) \<Rightarrow>
          (log1 @ log2 @ log3,
           Inr [(''status'', JStr ''success''),
                (''input'', JDict (dict_ProductListingRequest req)),
                (''output'', JDict (dict_ChatGPTResponse resp)),
                (''message'', JStr success_message)]))"
  by (simp add: process_product_request_def)

text \<open>
  C10. When the input is valid and the model call returns the empty string, the pipeline
  reports \<^verbatim>\<open>chatgpt_failed\<close>: the result has no \<^verbatim>\<open>raw_response\<close>, and
  \<^verbatim>\<open>validate_chatgpt_response\<close> is never entered.
\<close>

theorem empty_reply_is_chatgpt_failed:
  assumes "snd (validate_input lib json_data) = Inr (Some req)"
    and "client (prompt lib req) = ApiContent (Some [])"
  shows "\<exists>trace r. process_product_request lib client json_data = (trace, Inr r) \<and>
           r = [(''status'', JStr ''chatgpt_failed''), (''error'', JStr ''ChatGPT API call failed'')] \<and>
           map_of r ''status'' = Some (JStr ''chatgpt_failed'') \<and>
           map_of r ''raw_response'' = None \<and>
           ValidatingResponse \<notin> set trace"
proof -
  obtain d where d: "json_data = JDict d"
    using assms(1) by (cases json_data) (simp_all add: validate_input_def)
  have v: "validate_input lib json_data =
      ([ValidatingInput, InputValidationPassed], Inr (Some req))"
    using assms(1) unfolding d by (simp add: validate_input_JDict_cases split: sum.splits)
  have "clean_response [] = []"
    by (simp add: clean_response_def startswith_def)
  then have c: "call_chatgpt lib client req =
      ([CallingChatGPT, ChatGPTResponseReceived], Inr (Some []))"
    using call_chatgpt_content [where client = client, OF assms(2)] by simp
  have "process_product_request lib client json_data =
      ([ValidatingInput, InputValidationPassed] @ [CallingChatGPT, ChatGPTResponseReceived],
       Inr [(''status'', JStr ''chatgpt_failed''), (''error'', JStr ''ChatGPT API call failed'')])"
    using v c by (rule process_chatgpt_failed) simp
  then show ?thesis
    by simp
qed

theorem empty_reply_is_chatgpt_failed_witness:
  "snd (validate_input sample_library test_data) = Inr (Some test_request) \<and>
   reply_with [] (prompt sample_library test_request) = ApiContent (Some []) \<and>
   (\<exists>trace r. process_product_request sample_library (reply_with []) test_data = (trace, Inr r) \<and>
      r = [(''status'', JStr ''chatgpt_failed''), (''error'', JStr ''ChatGPT API call failed'')] \<and>
      map_of r ''status'' = Some (JStr ''chatgpt_failed'') \<and>
      map_of r ''raw_response'' = None \<and>
      ValidatingResponse \<notin> set trace)"
proof -
  have h1: "snd (validate_input sample_library test_data) = Inr (Some test_request)"
    by (simp add: validate_input_test_data)
  have h2: "reply_with [] (prompt sample_library test_request) = ApiContent (Some [])"
    by (simp add: reply_with_def)
  show ?thesis
    using h1 h2 empty_reply_is_chatgpt_failed [where client = "reply_with []", OF h1 h2] by blast
qed

text \<open>Every run of the pipeline on a dict, by the outcome of each stage.\<close>

lemma process_dict_outcomes:
  "(\<exists>es. validate_ProductListingRequest lib d = Inl es \<and>
      process_product_request lib client (JDict d) =
        ([ValidatingInput, InputValidationFailed (printed_errors lib es)],
         Inr [(''status'', JStr ''input_validation_failed''),
              (''error'', JStr ''Input data invalid'')])) \<or>
   (\<exists>req. validate_ProductListingRequest lib d = Inr req \<and>
      (client (prompt lib req) = ApiException \<or> client (prompt lib req) = ApiContent None) \<and>
      process_product_request lib client (JDict d) =
        ([ValidatingInput, InputValidationPassed, CallingChatGPT, ChatGPTApiError],
         Inr [(''status'', JStr ''chatgpt_failed''),
              (''error'', JStr ''ChatGPT API call failed'')])) \<or>
   (\<exists>req content. validate_ProductListingRequest lib d = Inr req \<and>
      client (prompt lib req) = ApiContent (Some content) \<and> clean_response content = [] \<and>
      process_product_request lib client (JDict d) =
        ([ValidatingInput, InputValidationPassed, CallingChatGPT, ChatGPTResponseReceived],
         Inr [(''status'', JStr ''chatgpt_failed''),
              (''error'', JStr ''ChatGPT API call failed'')])) \<or>
   (\<exists>req content. validate_ProductListingRequest lib d = Inr req \<and>
      client (prompt lib req) = ApiContent (Some content) \<and> clean_response content \<noteq> [] \<and>
      loads lib (clean_response content) = JSONDecodeError \<and>
      process_product_request lib client (JDict d) =
        ([ValidatingInput, InputValidationPassed, CallingChatGPT, ChatGPTResponseReceived,
          ValidatingResponse, ResponseNotValidJson],
         Inr [(''status'', JStr ''output_validation_failed''),
              (''error'', JStr ''ChatGPT response invalid''),
              (''raw_response'', JStr (clean_response content))])) \<or>
   (\<exists>req content rd es. validate_ProductListingRequest lib d = Inr req \<and>
      client (prompt lib req) = ApiContent (Some content) \<and> clean_response content \<noteq> [] \<and>
      loads lib (clean_response content) = Loaded (JDict rd) \<and>
      validate_ChatGPTResponse rd = Inl es \<and>
      process_product_request lib client (JDict d) =
        ([ValidatingInput, InputValidationPassed, CallingChatGPT, ChatGPTResponseReceived,
          ValidatingResponse, ResponseValidationFailed (printed_errors lib es)],
         Inr [(''status'', JStr ''output_validation_failed''),
              (''error'', JStr ''ChatGPT response invalid''),
              (''raw_response'', JStr (clean_response content))])) \<or>
   (\<exists>req content rd resp. validate_ProductListingRequest lib d = Inr req \<and>
      client (prompt lib req) = ApiContent (Some content) \<and> clean_response content \<noteq> [] \<and>
      loads lib (clean_response content) = Loaded (JDict rd) \<and>
      validate_ChatGPTResponse rd = Inr resp \<and>
      process_product_request lib client (JDict d) =
        ([ValidatingInput, InputValidationPassed, CallingChatGPT, ChatGPTResponseReceived,
          ValidatingResponse, ResponseValidationPassed],
         Inr [(''status'', JStr ''success''),
              (''input'', JDict (dict_ProductListingRequest req)),
              (''output'', JDict (dict_ChatGPTResponse resp)),
              (''message'', JStr success_message)])) \<or>
   (\<exists>req content j. validate_ProductListingRequest lib d = Inr req \<and>
      client (prompt lib req) = ApiContent (Some content) \<and> clean_response content \<noteq> [] \<and>
      loads lib (clean_response content) = Loaded j \<and> (\<forall>rd. j \<noteq> JDict rd) \<and>
      process_product_request lib client (JDict d) =
        ([ValidatingInput, InputValidationPassed, CallingChatGPT, ChatGPTResponseReceived,
          ValidatingResponse],
         Inl TypeError)) \<or>
   (\<exists>req content e. validate_ProductListingRequest lib d = Inr req \<and>
      client (prompt lib req) = ApiContent (Some content) \<and> clean_response content \<noteq> [] \<and>
      loads lib (clean_response content) = LoadsRaised e \<and>
      process_product_request lib client (JDict d) =
        ([ValidatingInput, InputValidationPassed, CallingChatGPT, ChatGPTResponseReceived,
          ValidatingResponse],
         Inl e)) \<or>
   (\<exists>req. validate_ProductListingRequest lib d = Inr req \<and>
      client (prompt lib req) = ApiBaseException \<and>
      process_product_request lib client (JDict d) =
        ([ValidatingInput, InputValidationPassed, CallingChatGPT], Inl BaseException))"
proof (cases "validate_ProductListingRequest lib d")
  case (Inl es)
  then show ?thesis
    by (simp add: validate_input_Inl_None process_input_invalid)
next
  case (Inr req)
  note v = validate_input_Inr_Some [OF Inr]
  show ?thesis
  proof (cases "client (prompt lib req)")
    case ApiException
    then have "call_chatgpt lib client req = ([CallingChatGPT, ChatGPTApiError], Inr None)"
      by (simp add: call_chatgpt_def)
    from process_chatgpt_failed [OF v this] Inr ApiException show ?thesis
      by simp
  next
    case ApiBaseException
    then have "call_chatgpt lib client req = ([CallingChatGPT], Inl BaseException)"
      by (rule call_chatgpt_raises)
    from process_chatgpt_raises [OF v this] Inr ApiBaseException show ?thesis
      by simp
  next
    case (ApiContent c)
    show ?thesis
    proof (cases c)
      case None
      with ApiContent have "call_chatgpt lib client req = ([CallingChatGPT, ChatGPTApiError], Inr None)"
        by (simp add: call_chatgpt_def)
      from process_chatgpt_failed [OF v this] Inr ApiContent None show ?thesis
        by simp
    next
      case (Some content)
      with ApiContent have a: "client (prompt lib req) = ApiContent (Some content)"
        by simp
      then have c: "call_chatgpt lib client req =
          ([CallingChatGPT, ChatGPTResponseReceived], Inr (Some (clean_response content)))"
        by (simp add: call_chatgpt_def)
      show ?thesis
      proof (cases "clean_response content = []")
        case True
        from process_chatgpt_failed [OF v c] True Inr a show ?thesis
          by auto
      next
        case False
        note p = process_output [OF v c False]
        show ?thesis
        proof (cases "loads lib (clean_response content)")
          case JSONDecodeError
          with p Inr a False show ?thesis
            by (simp add: validate_chatgpt_response_not_json)
        next
          case (LoadsRaised e)
          with p Inr a False show ?thesis
            by (simp add: validate_chatgpt_response_raised)
        next
          case (Loaded j)
          show ?thesis
          proof (cases "\<exists>rd. j = JDict rd")
            case True
            then obtain rd where rd: "loads lib (clean_response content) = Loaded (JDict rd)"
              using Loaded by blast
            show ?thesis
            proof (cases "validate_ChatGPTResponse rd")
              case (Inl es)
              with p Inr a False rd show ?thesis
                by (simp add: validate_chatgpt_response_schema)
            next
              case (Inr resp)
              with p \<open>validate_ProductListingRequest lib d = Inr req\<close> a False rd show ?thesis
                by (simp add: validate_chatgpt_response_passed)
            qed
          next
            case False
            with p Inr a \<open>clean_response content \<noteq> []\<close> Loaded show ?thesis
              by (simp add: validate_chatgpt_response_not_object)
          qed
        qed
      qed
    qed
  qed
qed

lemma snd_call_chatgpt_failed:
  "client (prompt lib req) = ApiException \<or> client (prompt lib req) = ApiContent None \<Longrightarrow>
   snd (call_chatgpt lib client req) = Inr None"
  by (auto simp add: call_chatgpt_def)

lemma snd_call_chatgpt_content:
  "client (prompt lib req) = ApiContent (Some content) \<Longrightarrow>
   snd (call_chatgpt lib client req) = Inr (Some (clean_response content))"
  by (simp add: call_chatgpt_def)

text \<open>
  C2 (as amended). The input is a dict with string keys, the model client returns or
  raises an \<^verbatim>\<open>Exception\<close>, and on the cleaned reply \<^verbatim>\<open>json.loads\<close> raises
  \<^verbatim>\<open>JSONDecodeError\<close> or returns a dict. Then \<^verbatim>\<open>process_product_request\<close>
  returns a dict. The stages are entered in the order
  \<^verbatim>\<open>validate_input\<close>, \<^verbatim>\<open>call_chatgpt\<close>, \<^verbatim>\<open>validate_chatgpt_response\<close>, and
  none is entered after the first one that fails: the status is
  \<^verbatim>\<open>input_validation_failed\<close> when \<^verbatim>\<open>validate_input\<close> returns \<^verbatim>\<open>None\<close>,
  \<^verbatim>\<open>chatgpt_failed\<close> when \<^verbatim>\<open>call_chatgpt\<close> returns \<^verbatim>\<open>None\<close> or the empty
  string, \<^verbatim>\<open>output_validation_failed\<close> when \<^verbatim>\<open>validate_chatgpt_response\<close>
  returns \<^verbatim>\<open>None\<close>, and \<^verbatim>\<open>success\<close> otherwise. The key \<^verbatim>\<open>raw_response\<close> is
  present exactly when the status is \<^verbatim>\<open>output_validation_failed\<close>, and a successful
  result holds the validated input and the validated output as dicts.
\<close>

theorem process_product_request_result:
  assumes "\<forall>req. validate_ProductListingRequest lib d = Inr req \<longrightarrow>
      client (prompt lib req) \<noteq> ApiBaseException"
    and "\<forall>req content.
      validate_ProductListingRequest lib d = Inr req \<and>
      client (prompt lib req) = ApiContent (Some content) \<and>
      clean_response content \<noteq> [] \<longrightarrow>
      loads lib (clean_response content) = JSONDecodeError \<or>
      (\<exists>rd. loads lib (clean_response content) = Loaded (JDict rd))"
  shows "\<exists>trace r. process_product_request lib client (JDict d) = (trace, Inr r) \<and>
    (snd (validate_input lib (JDict d)) = Inr None \<and>
     r = [(''status'', JStr ''input_validation_failed''),
          (''error'', JStr ''Input data invalid'')] \<and>
     stages trace = [ValidatingInput] \<or>
     (\<exists>req. snd (validate_input lib (JDict d)) = Inr (Some req) \<and>
        (snd (call_chatgpt lib client req) = Inr None \<or>
         snd (call_chatgpt lib client req) = Inr (Some [])) \<and>
        r = [(''status'', JStr ''chatgpt_failed''),
             (''error'', JStr ''ChatGPT API call failed'')] \<and>
        stages trace = [ValidatingInput, CallingChatGPT]) \<or>
     (\<exists>req text. snd (validate_input lib (JDict d)) = Inr (Some req) \<and>
        snd (call_chatgpt lib client req) = Inr (Some text) \<and> text \<noteq> [] \<and>
        snd (validate_chatgpt_response lib text) = Inr None \<and>
        r = [(''status'', JStr ''output_validation_failed''),
             (''error'', JStr ''ChatGPT response invalid''),
             (''raw_response'', JStr text)] \<and>
        stages trace = [ValidatingInput, CallingChatGPT, ValidatingResponse]) \<or>
     (\<exists>req text resp. snd (validate_input lib (JDict d)) = Inr (Some req) \<and>
        snd (call_chatgpt lib client req) = Inr (Some text) \<and> text \<noteq> [] \<and>
        snd (validate_chatgpt_response lib text) = Inr (Some resp) \<and>
        r = [(''status'', JStr ''success''),
             (''input'', JDict (dict_ProductListingRequest req)),
             (''output'', JDict (dict_ChatGPTResponse resp)),
             (''message'', JStr success_message)] \<and>
        stages trace = [ValidatingInput, CallingChatGPT, ValidatingResponse])) \<and>
    map_of r ''status'' \<in>
      {Some (JStr ''success''), Some (JStr ''input_validation_failed''),
       Some (JStr ''chatgpt_failed''), Some (JStr ''output_validation_failed'')} \<and>
    ((map_of r ''raw_response'' \<noteq> None) =
     (map_of r ''status'' = Some (JStr ''output_validation_failed'')))"
  (is "\<exists>trace r. ?ret trace r \<and>
         (?c1 trace r \<or> ?c2 trace r \<or> ?c3 trace r \<or> ?c4 trace r) \<and> ?st r \<and> ?raw r")
  using process_dict_outcomes [of lib d client]
proof (elim disjE exE conjE)
  fix es
  let ?t = "[ValidatingInput, InputValidationFailed (printed_errors lib es)]"
  let ?r = "[(''status'', JStr ''input_validation_failed''), (''error'', JStr ''Input data invalid'')]"
  assume v: "validate_ProductListingRequest lib d = Inl es"
    and p: "process_product_request lib client (JDict d) = (?t, Inr ?r)"
  have k: "?c1 ?t ?r"
    by (simp add: validate_input_Inl_None [OF v] stages_def)
  have s: "?st ?r" and w: "?raw ?r"
    by simp_all
  have "?c1 ?t ?r \<or> ?c2 ?t ?r \<or> ?c3 ?t ?r \<or> ?c4 ?t ?r"
    using k by (rule disjI1)
  with p s w have "?ret ?t ?r \<and> (?c1 ?t ?r \<or> ?c2 ?t ?r \<or> ?c3 ?t ?r \<or> ?c4 ?t ?r) \<and> ?st ?r \<and> ?raw ?r"
    by (intro conjI)
  then show ?thesis
    by (intro exI)
next
  fix req
  let ?t = "[ValidatingInput, InputValidationPassed, CallingChatGPT, ChatGPTApiError]"
  let ?r = "[(''status'', JStr ''chatgpt_failed''), (''error'', JStr ''ChatGPT API call failed'')]"
  assume v: "validate_ProductListingRequest lib d = Inr req"
    and c: "client (prompt lib req) = ApiException"
    and p: "process_product_request lib client (JDict d) = (?t, Inr ?r)"
  have "snd (call_chatgpt lib client req) = Inr None"
    using c by (intro snd_call_chatgpt_failed [where client = client]) simp
  then have k: "?c2 ?t ?r"
    by (simp add: validate_input_Inr_Some [OF v] stages_def)
  have s: "?st ?r" and w: "?raw ?r"
    by simp_all
  have "?c1 ?t ?r \<or> ?c2 ?t ?r \<or> ?c3 ?t ?r \<or> ?c4 ?t ?r"
    using k by (intro disjI1 disjI2)
  with p s w have "?ret ?t ?r \<and> (?c1 ?t ?r \<or> ?c2 ?t ?r \<or> ?c3 ?t ?r \<or> ?c4 ?t ?r) \<and> ?st ?r \<and> ?raw ?r"
    by (intro conjI)
  then show ?thesis
    by (intro exI)
next
  fix req
  let ?t = "[ValidatingInput, InputValidationPassed, CallingChatGPT, ChatGPTApiError]"
  let ?r = "[(''status'', JStr ''chatgpt_failed''), (''error'', JStr ''ChatGPT API call failed'')]"
  assume v: "validate_ProductListingRequest lib d = Inr req"
    and c: "client (prompt lib req) = ApiContent None"
    and p: "process_product_request lib client (JDict d) = (?t, Inr ?r)"
  have "snd (call_chatgpt lib client req) = Inr None"
    using c by (intro snd_call_chatgpt_failed [where client = client]) simp
  then have k: "?c2 ?t ?r"
    by (simp add: validate_input_Inr_Some [OF v] stages_def)
  have s: "?st ?r" and w: "?raw ?r"
    by simp_all
  have "?c1 ?t ?r \<or> ?c2 ?t ?r \<or> ?c3 ?t ?r \<or> ?c4 ?t ?r"
    using k by (intro disjI1 disjI2)
  with p s w have "?ret ?t ?r \<and> (?c1 ?t ?r \<or> ?c2 ?t ?r \<or> ?c3 ?t ?r \<or> ?c4 ?t ?r) \<and> ?st ?r \<and> ?raw ?r"
    by (intro conjI)
  then show ?thesis
    by (intro exI)
next
  fix req content
  let ?t = "[ValidatingInput, InputValidationPassed, CallingChatGPT, ChatGPTResponseReceived]"
  let ?r = "[(''status'', JStr ''chatgpt_failed''), (''error'', JStr ''ChatGPT API call failed'')]"
  assume v: "validate_ProductListingRequest lib d = Inr req"
    and c: "client (prompt lib req) = ApiContent (Some content)"
    and e: "clean_response content = []"
    and p: "process_product_request lib client (JDict d) = (?t, Inr ?r)"
  have "snd (call_chatgpt lib client req) = Inr (Some [])"
    using snd_call_chatgpt_content [where client = client, OF c] e by simp
  then have k: "?c2 ?t ?r"
    by (simp add: validate_input_Inr_Some [OF v] stages_def)
  have s: "?st ?r" and w: "?raw ?r"
    by simp_all
  have "?c1 ?t ?r \<or> ?c2 ?t ?r \<or> ?c3 ?t ?r \<or> ?c4 ?t ?r"
    using k by (intro disjI1 disjI2)
  with p s w have "?ret ?t ?r \<and> (?c1 ?t ?r \<or> ?c2 ?t ?r \<or> ?c3 ?t ?r \<or> ?c4 ?t ?r) \<and> ?st ?r \<and> ?raw ?r"
    by (intro conjI)
  then show ?thesis
    by (intro exI)
next
  fix req content
  let ?t = "[ValidatingInput, InputValidationPassed, CallingChatGPT, ChatGPTResponseReceived,
             ValidatingResponse, ResponseNotValidJson]"
  let ?r = "[(''status'', JStr ''output_validation_failed''),
             (''error'', JStr ''ChatGPT response invalid''),
             (''raw_response'', JStr (clean_response content))]"
  assume v: "validate_ProductListingRequest lib d = Inr req"
    and c: "client (prompt lib req) = ApiContent (Some content)"
    and e: "clean_response content \<noteq> []"
    and l: "loads lib (clean_response content) = JSONDecodeError"
    and p: "process_product_request lib client (JDict d) = (?t, Inr ?r)"
  have k: "?c3 ?t ?r"
    using e snd_call_chatgpt_content [where client = client, OF c]
    by (simp add: validate_input_Inr_Some [OF v] stages_def
        validate_chatgpt_response_not_json [OF l])
  have s: "?st ?r" and w: "?raw ?r"
    by simp_all
  have "?c1 ?t ?r \<or> ?c2 ?t ?r \<or> ?c3 ?t ?r \<or> ?c4 ?t ?r"
    using k by (intro disjI1 disjI2)
  with p s w have "?ret ?t ?r \<and> (?c1 ?t ?r \<or> ?c2 ?t ?r \<or> ?c3 ?t ?r \<or> ?c4 ?t ?r) \<and> ?st ?r \<and> ?raw ?r"
    by (intro conjI)
  then show ?thesis
    by (intro exI)
next
  fix req content rd es
  let ?t = "[ValidatingInput, InputValidationPassed, CallingChatGPT, ChatGPTResponseReceived,
             ValidatingResponse, ResponseValidationFailed (printed_errors lib es)]"
  let ?r = "[(''status'', JStr ''output_validation_failed''),
             (''error'', JStr ''ChatGPT response invalid''),
             (''raw_response'', JStr (clean_response content))]"
  assume v: "validate_ProductListingRequest lib d = Inr req"
    and c: "client (prompt lib req) = ApiContent (Some content)"
    and e: "clean_response content \<noteq> []"
    and l: "loads lib (clean_response content) = Loaded (JDict rd)"
    and o: "validate_ChatGPTResponse rd = Inl es"
    and p: "process_product_request lib client (JDict d) = (?t, Inr ?r)"
  have k: "?c3 ?t ?r"
    using e snd_call_chatgpt_content [where client = client, OF c]
    by (simp add: validate_input_Inr_Some [OF v] stages_def
        validate_chatgpt_response_schema [OF l o])
  have s: "?st ?r" and w: "?raw ?r"
    by simp_all
  have "?c1 ?t ?r \<or> ?c2 ?t ?r \<or> ?c3 ?t ?r \<or> ?c4 ?t ?r"
    using k by (intro disjI1 disjI2)
  with p s w have "?ret ?t ?r \<and> (?c1 ?t ?r \<or> ?c2 ?t ?r \<or> ?c3 ?t ?r \<or> ?c4 ?t ?r) \<and> ?st ?r \<and> ?raw ?r"
    by (intro conjI)
  then show ?thesis
    by (intro exI)
next
  fix req content rd resp
  let ?t = "[ValidatingInput, InputValidationPassed, CallingChatGPT, ChatGPTResponseReceived,
             ValidatingResponse, ResponseValidationPassed]"
  let ?r = "[(''status'', JStr ''success''),
             (''input'', JDict (dict_ProductListingRequest req)),
             (''output'', JDict (dict_ChatGPTResponse resp)),
             (''message'', JStr success_message)]"
  assume v: "validate_ProductListingRequest lib d = Inr req"
    and c: "client (prompt lib req) = ApiContent (Some content)"
    and e: "clean_response content \<noteq> []"
    and l: "loads lib (clean_response content) = Loaded (JDict rd)"
    and o: "validate_ChatGPTResponse rd = Inr resp"
    and p: "process_product_request lib client (JDict d) = (?t, Inr ?r)"
  have k: "?c4 ?t ?r"
    using e snd_call_chatgpt_content [where client = client, OF c]
    by (simp add: validate_input_Inr_Some [OF v] stages_def
        validate_chatgpt_response_passed [OF l o])
  have s: "?st ?r" and w: "?raw ?r"
    by simp_all
  have "?c1 ?t ?r \<or> ?c2 ?t ?r \<or> ?c3 ?t ?r \<or> ?c4 ?t ?r"
    using k by (intro disjI2)
  with p s w have "?ret ?t ?r \<and> (?c1 ?t ?r \<or> ?c2 ?t ?r \<or> ?c3 ?t ?r \<or> ?c4 ?t ?r) \<and> ?st ?r \<and> ?raw ?r"
    by (intro conjI)
  then show ?thesis
    by (intro exI)
next
  fix req content j
  assume "validate_ProductListingRequest lib d = Inr req"
    and "client (prompt lib req) = ApiContent (Some content)"
    and "clean_response content \<noteq> []"
    and l: "loads lib (clean_response content) = Loaded j"
    and n: "\<forall>rd. j \<noteq> JDict rd"
  with assms(2) have "loads lib (clean_response content) = JSONDecodeError \<or>
      (\<exists>rd. loads lib (clean_response content) = Loaded (JDict rd))"
    by blast
  with l n have False
    by auto
  then show ?thesis ..
next
  fix req content e
  assume "validate_ProductListingRequest lib d = Inr req"
    and "client (prompt lib req) = ApiContent (Some content)"
    and "clean_response content \<noteq> []"
    and l: "loads lib (clean_response content) = LoadsRaised e"
  with assms(2) have "loads lib (clean_response content) = JSONDecodeError \<or>
      (\<exists>rd. loads lib (clean_response content) = Loaded (JDict rd))"
    by blast
  with l have False
    by auto
  then show ?thesis ..
next
  fix req
  assume "validate_ProductListingRequest lib d = Inr req"
    and "client (prompt lib req) = ApiBaseException"
  with assms(1) have False
    by blast
  then show ?thesis ..
qed

lemma clean_sample_reply: "clean_response sample_reply_text = sample_reply_text"
  by (simp add: clean_response_def startswith_def sample_reply_text_def)

lemma loads_sample_reply: "loads sample_library sample_reply_text = Loaded sample_reply"
  by (simp add: sample_library_def sample_loads_def)

lemma reply_with_returns:
  "\<forall>req. validate_ProductListingRequest sample_library test_dict = Inr req \<longrightarrow>
      reply_with content (prompt sample_library req) \<noteq> ApiBaseException"
  by (simp add: reply_with_def)

lemma sample_reply_is_object:
  "\<forall>req content.
      validate_ProductListingRequest sample_library test_dict = Inr req \<and>
      reply_with sample_reply_text (prompt sample_library req) = ApiContent (Some content) \<and>
      clean_response content \<noteq> [] \<longrightarrow>
      loads sample_library (clean_response content) = JSONDecodeError \<or>
      (\<exists>rd. loads sample_library (clean_response content) = Loaded (JDict rd))"
  by (auto simp add: reply_with_def clean_sample_reply loads_sample_reply sample_reply_def)

theorem process_product_request_result_witness:
  "\<exists>trace r.
     process_product_request sample_library (reply_with sample_reply_text) (JDict test_dict) =
       (trace, Inr r) \<and>
     map_of r ''status'' \<in>
       {Some (JStr ''success''), Some (JStr ''input_validation_failed''),
        Some (JStr ''chatgpt_failed''), Some (JStr ''output_validation_failed'')} \<and>
     ((map_of r ''raw_response'' \<noteq> None) =
      (map_of r ''status'' = Some (JStr ''output_validation_failed'')))"
  using process_product_request_result
    [where lib = sample_library and client = "reply_with sample_reply_text" and d = test_dict,
     OF reply_with_returns sample_reply_is_object]
  by (elim exE conjE) (intro exI conjI, assumption+)

lemma loads_long_integer:
  "loads sample_library (replicate 4301 (CHR ''1'')) = LoadsRaised ValueError"
  by code_simp

text \<open>
  C2 as stated fails, for there is no result: an input that is a list raises
  \<^verbatim>\<open>TypeError\<close>; an exception of the model client that is not an
  \<^verbatim>\<open>Exception\<close> is not caught; for the request of \<^verbatim>\<open>test_integration\<close> and the
  reply \<^verbatim>\<open>42\<close>, \<^verbatim>\<open>TypeError\<close> leaves \<^verbatim>\<open>process_product_request\<close>, and for a
  reply that is an integer of 4301 digits, the \<^verbatim>\<open>ValueError\<close> of
  \<^verbatim>\<open>json.loads\<close> does.
\<close>

theorem process_product_request_raises:
  "snd (process_product_request sample_library (reply_with ''42'') (JList [])) = Inl TypeError \<and>
   snd (process_product_request sample_library api_interrupted test_data) = Inl BaseException \<and>
   snd (process_product_request sample_library (reply_with ''42'') test_data) = Inl TypeError \<and>
   snd (process_product_request sample_library (reply_with (replicate 4301 (CHR ''1'')))
          test_data) = Inl ValueError"
  by code_simp

text \<open>
  C7 (as amended). On a dict with string keys \<^verbatim>\<open>validate_input\<close> returns, whatever
  the dict holds. When moreover the model client returns or raises an
  \<^verbatim>\<open>Exception\<close>, and \<^verbatim>\<open>json.loads\<close> on the cleaned reply raises
  \<^verbatim>\<open>JSONDecodeError\<close> or returns a dict, \<^verbatim>\<open>process_product_request\<close> returns a
  dict: an invalid input gives the result \<^verbatim>\<open>input_validation_failed\<close>, and a
  client that raises an \<^verbatim>\<open>Exception\<close> or replies without content gives
  \<^verbatim>\<open>chatgpt_failed\<close>.
\<close>

theorem process_product_request_never_raises:
  assumes "\<forall>req. validate_ProductListingRequest lib d = Inr req \<longrightarrow>
      client (prompt lib req) \<noteq> ApiBaseException"
    and "\<forall>req content.
      validate_ProductListingRequest lib d = Inr req \<and>
      client (prompt lib req) = ApiContent (Some content) \<and>
      clean_response content \<noteq> [] \<longrightarrow>
      loads lib (clean_response content) = JSONDecodeError \<or>
      (\<exists>rd. loads lib (clean_response content) = Loaded (JDict rd))"
  shows "(\<exists>v. snd (validate_input lib (JDict d)) = Inr v) \<and>
    (\<exists>r. snd (process_product_request lib client (JDict d)) = Inr r) \<and>
    (\<forall>es. validate_ProductListingRequest lib d = Inl es \<longrightarrow>
       snd (process_product_request lib client (JDict d)) =
         Inr [(''status'', JStr ''input_validation_failed''),
              (''error'', JStr ''Input data invalid'')]) \<and>
    (\<forall>req. validate_ProductListingRequest lib d = Inr req \<and>
       (client (prompt lib req) = ApiException \<or> client (prompt lib req) = ApiContent None) \<longrightarrow>
       snd (process_product_request lib client (JDict d)) =
         Inr [(''status'', JStr ''chatgpt_failed''),
              (''error'', JStr ''ChatGPT API call failed'')])"
proof (intro conjI allI impI)
  show "\<exists>v. snd (validate_input lib (JDict d)) = Inr v"
    by (simp add: validate_input_JDict_cases split: sum.splits)
next
  show "\<exists>r. snd (process_product_request lib client (JDict d)) = Inr r"
    using process_dict_outcomes [of lib d client]
  proof (elim disjE exE conjE, goal_cases)
    case (8 req content j)
    from assms(2) 8(1,2,3) have "loads lib (clean_response content) = JSONDecodeError \<or>
        (\<exists>rd. loads lib (clean_response content) = Loaded (JDict rd))"
      by blast
    with 8(4,5) have False
      by auto
    then show ?case ..
  next
    case (9 req content e)
    from assms(2) 9(1,2,3) have "loads lib (clean_response content) = JSONDecodeError \<or>
        (\<exists>rd. loads lib (clean_response content) = Loaded (JDict rd))"
      by blast
    with 9(4) have False
      by auto
    then show ?case ..
  next
    case (10 req)
    from assms(1) 10(1,2) have False
      by blast
    then show ?case ..
  qed simp_all
next
  fix es
  assume "validate_ProductListingRequest lib d = Inl es"
  then show "snd (process_product_request lib client (JDict d)) =
         Inr [(''status'', JStr ''input_validation_failed''),
              (''error'', JStr ''Input data invalid'')]"
    by (simp add: process_input_invalid [OF validate_input_Inl_None])
next
  fix req
  assume a: "validate_ProductListingRequest lib d = Inr req \<and>
       (client (prompt lib req) = ApiException \<or> client (prompt lib req) = ApiContent None)"
  then have "call_chatgpt lib client req = ([CallingChatGPT, ChatGPTApiError], Inr None)"
    by (intro call_chatgpt_failed) simp
  with a show "snd (process_product_request lib client (JDict d)) =
         Inr [(''status'', JStr ''chatgpt_failed''),
              (''error'', JStr ''ChatGPT API call failed'')]"
    by (simp add: process_chatgpt_failed [OF validate_input_Inr_Some])
qed

lemma api_down_raises_exception:
  "\<forall>req. validate_ProductListingRequest sample_library test_dict = Inr req \<longrightarrow>
      api_down (prompt sample_library req) \<noteq> ApiBaseException"
  by (simp add: api_down_def)

lemma api_down_has_no_content:
  "\<forall>req content.
      validate_ProductListingRequest sample_library test_dict = Inr req \<and>
      api_down (prompt sample_library req) = ApiContent (Some content) \<and>
      clean_response content \<noteq> [] \<longrightarrow>
      loads sample_library (clean_response content) = JSONDecodeError \<or>
      (\<exists>rd. loads sample_library (clean_response content) = Loaded (JDict rd))"
  by (simp add: api_down_def)

lemma validate_test_dict:
  "validate_ProductListingRequest sample_library test_dict = Inr test_request"
  by code_simp

theorem process_product_request_never_raises_witness:
  "(\<exists>v. snd (validate_input sample_library (JDict test_dict)) = Inr v) \<and>
   (\<exists>r. snd (process_product_request sample_library (reply_with sample_reply_text)
            (JDict test_dict)) = Inr r) \<and>
   snd (process_product_request sample_library api_down (JDict test_dict)) =
     Inr [(''status'', JStr ''chatgpt_failed''), (''error'', JStr ''ChatGPT API call failed'')]"
proof -
  note a = process_product_request_never_raises
    [where lib = sample_library and client = "reply_with sample_reply_text" and d = test_dict,
     OF reply_with_returns sample_reply_is_object]
  note b = process_product_request_never_raises
    [where lib = sample_library and client = api_down and d = test_dict,
     OF api_down_raises_exception api_down_has_no_content]
  have "api_down (prompt sample_library test_request) = ApiException"
    by (simp add: api_down_def)
  with b validate_test_dict
  have "snd (process_product_request sample_library api_down (JDict test_dict)) =
     Inr [(''status'', JStr ''chatgpt_failed''), (''error'', JStr ''ChatGPT API call failed'')]"
    by blast
  with a show ?thesis
    by (elim conjE) (intro conjI, assumption+)
qed

text \<open>
  C7 as stated fails: an input that is not a dict makes \<^verbatim>\<open>validate_input\<close>, and
  with it \<^verbatim>\<open>process_product_request\<close>, raise \<^verbatim>\<open>TypeError\<close>; an exception of
  the model client that is not an \<^verbatim>\<open>Exception\<close> passes \<^verbatim>\<open>except Exception\<close>;
  and \<^verbatim>\<open>validate_chatgpt_response\<close> lets through the \<^verbatim>\<open>TypeError\<close> of a reply
  that parses to a list and the \<^verbatim>\<open>ValueError\<close> of \<^verbatim>\<open>json.loads\<close> on an integer
  of 4301 digits.
\<close>

theorem non_dict_input_raises:
  "snd (validate_input sample_library (JStr ''not a dict'')) = Inl TypeError \<and>
   snd (process_product_request sample_library api_down (JStr ''not a dict'')) =
     Inl TypeError \<and>
   snd (process_product_request sample_library api_interrupted (JDict test_dict)) =
     Inl BaseException \<and>
   snd (validate_chatgpt_response sample_library ''[]'') = Inl TypeError \<and>
   snd (validate_chatgpt_response sample_library (replicate 4301 (CHR ''1''))) = Inl ValueError"
  by code_simp

section \<open>The failures of the validators\<close>


















text \<open>
  C1 (as amended). \<^verbatim>\<open>validate_chatgpt_response\<close> returns \<^verbatim>\<open>None\<close> both for a
  reply that is not JSON and for a reply that is a JSON object violating
  \<^verbatim>\<open>ChatGPTResponse\<close>; what tells the two apart is printed only (the message that the
  reply is not valid JSON, or the field errors). \<^verbatim>\<open>process_product_request\<close> reports
  either as \<^verbatim>\<open>output_validation_failed\<close>, with the cleaned reply as
  \<^verbatim>\<open>raw_response\<close>.
\<close>

theorem validate_chatgpt_response_failures:
  "(loads lib reply_text = JSONDecodeError \<longrightarrow>
      validate_chatgpt_response lib reply_text =
        ([ValidatingResponse, ResponseNotValidJson], Inr None)) \<and>
   (\<forall>rd es. loads lib reply_text = Loaded (JDict rd) \<and> validate_ChatGPTResponse rd = Inl es \<longrightarrow>
      validate_chatgpt_response lib reply_text =
        ([ValidatingResponse, ResponseValidationFailed (printed_errors lib es)], Inr None)) \<and>
   (\<forall>req. snd (validate_input lib json_data) = Inr (Some req) \<and>
      snd (call_chatgpt lib client req) = Inr (Some reply_text) \<and> reply_text \<noteq> [] \<and>
      snd (validate_chatgpt_response lib reply_text) = Inr None \<longrightarrow>
      snd (process_product_request lib client json_data) =
        Inr [(''status'', JStr ''output_validation_failed''),
             (''error'', JStr ''ChatGPT response invalid''),
             (''raw_response'', JStr reply_text)])"
proof (intro conjI allI impI)
  assume "loads lib reply_text = JSONDecodeError"
  then show "validate_chatgpt_response lib reply_text =
      ([ValidatingResponse, ResponseNotValidJson], Inr None)"
    by (rule validate_chatgpt_response_not_json)
next
  fix rd es
  assume "loads lib reply_text = Loaded (JDict rd) \<and> validate_ChatGPTResponse rd = Inl es"
  then show "validate_chatgpt_response lib reply_text =
      ([ValidatingResponse, ResponseValidationFailed (printed_errors lib es)], Inr None)"
    by (simp add: validate_chatgpt_response_schema)
next
  fix req
  assume a: "snd (validate_input lib json_data) = Inr (Some req) \<and>
      snd (call_chatgpt lib client req) = Inr (Some reply_text) \<and> reply_text \<noteq> [] \<and>
      snd (validate_chatgpt_response lib reply_text) = Inr None"
  obtain t1 where v: "validate_input lib json_data = (t1, Inr (Some req))"
    using a by (cases "validate_input lib json_data") simp
  obtain t2 where c: "call_chatgpt lib client req = (t2, Inr (Some reply_text))"
    using a by (cases "call_chatgpt lib client req") simp
  obtain t3 where o: "validate_chatgpt_response lib reply_text = (t3, Inr None)"
    using a by (cases "validate_chatgpt_response lib reply_text") simp
  from a have "reply_text \<noteq> []"
    by simp
  from process_output [OF v c this] o
  show "snd (process_product_request lib client json_data) =
        Inr [(''status'', JStr ''output_validation_failed''),
             (''error'', JStr ''ChatGPT response invalid''),
             (''raw_response'', JStr reply_text)]"
    by simp
qed

lemma validate_empty_reply_object:
  "validate_ChatGPTResponse [] =
     Inl [FieldError [Key ''title''] Missing, FieldError [Key ''description''] Missing,
          FieldError [Key ''features''] Missing, FieldError [Key ''keywords''] Missing]"
  by code_simp

lemma sample_loads_texts:
  "loads sample_library ''not json at all'' = JSONDecodeError"
  "loads sample_library ''{}'' = Loaded (JDict [])"
  by code_simp+

lemma printed_missing_fields:
  "printed_errors sample_library
     [FieldError [Key ''title''] Missing, FieldError [Key ''description''] Missing,
      FieldError [Key ''features''] Missing, FieldError [Key ''keywords''] Missing] =
   [([Key ''title''], ''Field required''), ([Key ''description''], ''Field required''),
    ([Key ''features''], ''Field required''), ([Key ''keywords''], ''Field required'')]"
  by (simp add: printed_errors_def sample_library_def sample_error_msg_def)

theorem validate_chatgpt_response_failures_witness:
  "validate_chatgpt_response sample_library ''not json at all'' =
     ([ValidatingResponse, ResponseNotValidJson], Inr None) \<and>
   validate_chatgpt_response sample_library ''{}'' =
     ([ValidatingResponse,
       ResponseValidationFailed
         [([Key ''title''], ''Field required''), ([Key ''description''], ''Field required''),
          ([Key ''features''], ''Field required''), ([Key ''keywords''], ''Field required'')]],
      Inr None) \<and>
   snd (process_product_request sample_library (reply_with ''{}'') test_data) =
     Inr [(''status'', JStr ''output_validation_failed''),
          (''error'', JStr ''ChatGPT response invalid''),
          (''raw_response'', JStr ''{}'')]"
proof -
  note t = validate_chatgpt_response_failures [where lib = sample_library]
  have a: "validate_chatgpt_response sample_library ''not json at all'' =
     ([ValidatingResponse, ResponseNotValidJson], Inr None)"
    using t [where reply_text = "''not json at all''", THEN conjunct1] sample_loads_texts(1)
    by simp
  have b: "validate_chatgpt_response sample_library ''{}'' =
     ([ValidatingResponse,
       ResponseValidationFailed
         [([Key ''title''], ''Field required''), ([Key ''description''], ''Field required''),
          ([Key ''features''], ''Field required''), ([Key ''keywords''], ''Field required'')]],
      Inr None)"
    using t [where reply_text = "''{}''", THEN conjunct2, THEN conjunct1]
      sample_loads_texts(2) validate_empty_reply_object
    by (simp add: printed_missing_fields)
  have c: "snd (call_chatgpt sample_library (reply_with ''{}'') test_request) =
      Inr (Some ''{}'')"
    by (simp add: call_chatgpt_def reply_with_def clean_response_def startswith_def)
  have "snd (process_product_request sample_library (reply_with ''{}'') test_data) =
     Inr [(''status'', JStr ''output_validation_failed''),
          (''error'', JStr ''ChatGPT response invalid''),
          (''raw_response'', JStr ''{}'')]"
    using t [where reply_text = "''{}''" and json_data = test_data and client = "reply_with ''{}''",
        THEN conjunct2, THEN conjunct2] c b
    by (simp add: validate_input_test_data)
  with a b show ?thesis
    by (intro conjI)
qed

text \<open>
  C1 as stated fails: \<^verbatim>\<open>not json at all\<close> is not JSON, \<^verbatim>\<open>{}\<close> is a JSON object
  without the four required fields, and \<^verbatim>\<open>validate_chatgpt_response\<close> returns the
  same value for both.
\<close>

theorem validate_chatgpt_response_conflates:
  "loads sample_library ''not json at all'' = JSONDecodeError \<and>
   loads sample_library ''{}'' = Loaded (JDict []) \<and>
   validate_ChatGPTResponse [] =
     Inl [FieldError [Key ''title''] Missing, FieldError [Key ''description''] Missing,
          FieldError [Key ''features''] Missing, FieldError [Key ''keywords''] Missing] \<and>
   snd (validate_chatgpt_response sample_library ''not json at all'') = Inr None \<and>
   snd (validate_chatgpt_response sample_library ''{}'') = Inr None"
  by (simp add: sample_loads_texts validate_empty_reply_object
      validate_chatgpt_response_not_json
      validate_chatgpt_response_schema [OF sample_loads_texts(2) validate_empty_reply_object])

end
